theory Spec2Isabelle
  imports Main "HOL-Library.AList"
begin

section \<open>Data model\<close>

text \<open>
  The module installer of \<^verbatim>\<open>nf_core/modules/install.py\<close>: the class
  \<^verbatim>\<open>ModuleInstall\<close> and its method \<^verbatim>\<open>install\<close>. Strings are
  Python \<^verbatim>\<open>str\<close>; an optional argument (\<^verbatim>\<open>sha=None\<close>,
  \<^verbatim>\<open>module is None\<close>) is an \<open>option\<close>.
\<close>

type_synonym remote = string
type_synonym mod_name = string
type_synonym revision = string

text \<open>The files of one module directory: relative path to content.\<close>

type_synonym files = "string \<rightharpoonup> string"

text \<open>The module tree on disk: the path of a directory to its files.\<close>

type_synonym filesystem = "string \<rightharpoonup> files"

text \<open>
  The nested dictionary \<^verbatim>\<open>modules_json["repos"]\<close>: remote url, then
  directory (repository path), then module name, then the installed revision. A Python
  dictionary keeps insertion order and the source iterates over \<^verbatim>\<open>.items()\<close>,
  so every level is an association list.
\<close>

type_synonym dir_modules = "(mod_name \<times> revision) list"
type_synonym repo_content = "(string \<times> dir_modules) list"
type_synonym modules_json = "(remote \<times> repo_content) list"

text \<open>A dictionary has every key once, at each of the three levels.\<close>

definition wf_modules_json :: "modules_json \<Rightarrow> bool" where
  "wf_modules_json mj =
     (distinct (map fst mj) \<and>
      list_all (\<lambda>rc. distinct (map fst (snd rc)) \<and>
                     list_all (\<lambda>dm. distinct (map fst (snd dm))) (snd rc)) mj)"

text \<open>Every entry of the manifest, as (remote, directory, name, revision).\<close>

definition entries :: "modules_json \<Rightarrow> (remote \<times> string \<times> mod_name \<times> revision) list" where
  "entries mj =
     concat (map (\<lambda>rc. concat (map (\<lambda>dm. map (\<lambda>nv. (fst rc, fst dm, fst nv, snd nv)) (snd dm))
                                    (snd rc))) mj)"

record modules_repo =
  remote_url :: remote
  repo_path :: string
  branch :: string

text \<open>
  The fields of a \<^verbatim>\<open>ModuleInstall\<close> object that \<^verbatim>\<open>install\<close> reads:
  those set by \<^verbatim>\<open>__init__\<close> (lines 27 to 30) and \<^verbatim>\<open>repo_type\<close>,
  \<^verbatim>\<open>dir\<close> and \<^verbatim>\<open>modules_repo\<close> of the base class.
\<close>

record module_install =
  repo_type :: string
  dir :: string
  force :: bool
  prompt :: bool
  sha :: "revision option"
  modules_repo :: modules_repo

text \<open>What is on disk: the module tree and the manifest \<^verbatim>\<open>modules.json\<close>.\<close>

record world =
  fs :: filesystem
  manifest :: modules_json

datatype fetch_result = Fetched files | FetchFailed files

datatype prompt_result = Chosen revision | SystemError string | Interrupted

datatype exn = KeyboardInterrupt

text \<open>\<^verbatim>\<open>install\<close> returns a boolean, or an exception of a prompt passes through it.\<close>

datatype outcome = Returned bool | Raised exn

text \<open>
  The collaborators that are not in \<^verbatim>\<open>install.py\<close>. The queries of
  \<^verbatim>\<open>self.modules_repo\<close> against the remote (section 6 of the specification:
  \<^verbatim>\<open>revisionExistsInHistory\<close>, \<^verbatim>\<open>listAvailableModules\<close>,
  \<^verbatim>\<open>moduleExistsOnBranch\<close>, \<^verbatim>\<open>latestRevision\<close>,
  \<^verbatim>\<open>fetchModuleFiles\<close>), the prompts of \<^verbatim>\<open>questionary\<close>
  (\<open>None\<close> is the \<^verbatim>\<open>KeyboardInterrupt\<close> that \<^verbatim>\<open>unsafe_ask\<close>
  raises), the validation of the pipeline directory, the reconciliation that
  \<^verbatim>\<open>check_up_to_date\<close> makes, and the constant
  \<^verbatim>\<open>NF_CORE_MODULES_NAME\<close>.
\<close>

record env =
  has_valid_directory :: bool
  check_up_to_date :: "filesystem \<Rightarrow> modules_json \<Rightarrow> modules_json"
  sha_exists_on_branch :: "revision \<Rightarrow> bool"
  get_avail_modules :: "mod_name list"
  module_exists :: "mod_name \<Rightarrow> bool"
  get_latest_module_version :: "mod_name \<Rightarrow> revision"
  fetch_module_files :: "revision \<Rightarrow> mod_name \<Rightarrow> fetch_result"
  ask_module :: "mod_name list \<Rightarrow> mod_name option"
  confirm_force :: "mod_name \<Rightarrow> bool option"
  prompt_module_version_sha :: "mod_name \<Rightarrow> revision option \<Rightarrow> prompt_result"
  NF_CORE_MODULES_NAME :: string

subsection \<open>The trace of an install\<close>

text \<open>
  The log calls of the source, by kind and arguments (the wording of a message is not
  modelled).
\<close>

datatype level = Error | Warning | Info | Debug

datatype message =
    CannotInstallInClone
  | ShaAndPrompt
  | ShaDoesNotExist revision remote
  | NotInAvailableModules mod_name
  | UseModulesList
  | NotFoundInRemote mod_name remote string
  | AlreadyInstalled
  | UpdateHint mod_name string string
  | SystemErrorText string
  | RemovingInstalled string mod_name
  | RemovingFromModulesJson string mod_name remote
  | Installing bool mod_name
  | InstallingAt mod_name revision remote
  | IncludeStatement mod_name string

text \<open>
  Every call that \<^verbatim>\<open>install\<close> makes to a collaborator, in the order of the
  source, with its arguments and what it returned.
\<close>

datatype event =
    Log level message
  | HasValidDirectory bool
  | CheckModulesStructure
  | CheckUpToDate
  | ShaExistsOnBranch revision bool
  | GetAvailModules
  | AskModule "mod_name option"
  | ModuleExists mod_name bool
  | GetModuleVersion mod_name remote string "revision option"
  | PathExists string bool
  | ConfirmForce mod_name "bool option"
  | PromptModuleVersionSha mod_name "revision option"
  | GetLatestModuleVersion mod_name revision
  | ClearModuleDir mod_name string
  | RemoveEntry mod_name remote string
  | InstallModuleFiles mod_name revision string bool
  | Load
  | Update mod_name revision

text \<open>The events that write: to the module tree or to the manifest.\<close>

fun is_write :: "event \<Rightarrow> bool" where
  "is_write (ClearModuleDir _ _) = True"
| "is_write (RemoveEntry _ _ _) = True"
| "is_write (InstallModuleFiles _ _ _ _) = True"
| "is_write (Update _ _) = True"
| "is_write _ = False"


fun is_confirm :: "event \<Rightarrow> bool" where
  "is_confirm (ConfirmForce _ _) = True"
| "is_confirm _ = False"

fun is_materialize :: "event \<Rightarrow> bool" where
  "is_materialize (InstallModuleFiles _ _ _ _) = True"
| "is_materialize _ = False"

fun is_update :: "event \<Rightarrow> bool" where
  "is_update (Update _ _) = True"
| "is_update _ = False"

section \<open>Library functions\<close>

text \<open>
  \<^verbatim>\<open>os.path.join\<close> of \<^verbatim>\<open>posixpath\<close>: a component that starts with a
  slash replaces what came before it, and a separator is added unless the path so far is
  empty or ends with one.
\<close>

definition join_step :: "string \<Rightarrow> string \<Rightarrow> string" where
  "join_step path b =
     (if b \<noteq> [] \<and> hd b = CHR ''/'' then b
      else if path = [] \<or> last path = CHR ''/'' then path @ b
      else path @ ''/'' @ b)"

definition os_path_join :: "string \<Rightarrow> string list \<Rightarrow> string" where
  "os_path_join a p = foldl join_step a p"

text \<open>\<^verbatim>\<open>if self.sha:\<close> is false for \<^verbatim>\<open>None\<close> and for the empty string.\<close>

definition truthy :: "string option \<Rightarrow> bool" where
  "truthy s = (case s of None \<Rightarrow> False | Some x \<Rightarrow> x \<noteq> [])"

definition path_exists :: "filesystem \<Rightarrow> string \<Rightarrow> bool" where
  "path_exists f p = (f p \<noteq> None)"

section \<open>The manifest store and the materializer\<close>

text \<open>
  Modelled from the spec: \<^verbatim>\<open>ModulesJson.get_module_version\<close> of
  \<^verbatim>\<open>nf_core/modules/modules_json.py\<close>, which is not among the sources. Section 4.1:
  \<^verbatim>\<open>getInstalledRevision(moduleName, remote, repoPath) -> revision | absent\<close>, a
  pure lookup.
\<close>

definition get_module_version ::
  "modules_json \<Rightarrow> mod_name \<Rightarrow> remote \<Rightarrow> string \<Rightarrow> revision option" where
  "get_module_version mj module url d =
     (case map_of mj url of
        None \<Rightarrow> None
      | Some rc \<Rightarrow> (case map_of rc d of None \<Rightarrow> None | Some dm \<Rightarrow> map_of dm module))"

text \<open>
  Modelled from the spec: \<^verbatim>\<open>ModulesJson.remove_entry\<close>, not among the sources.
  Section 4.1: \<^verbatim>\<open>removeEntry(moduleName, remote, repoPath)\<close> removes one mapping
  entry and is a no-op if it is absent.
\<close>

definition remove_entry ::
  "modules_json \<Rightarrow> mod_name \<Rightarrow> remote \<Rightarrow> string \<Rightarrow> modules_json" where
  "remove_entry mj module url d =
     AList.map_entry url (AList.map_entry d (AList.delete module)) mj"

text \<open>
  Modelled from the spec: \<^verbatim>\<open>ModulesJson.update\<close>, not among the sources.
  Section 4.1: \<^verbatim>\<open>recordInstall(remote, repoPath, moduleName, revision)\<close> upserts the
  entry. The source calls no separate save: the store persists every point mutation when
  it is made, so the manifest of the model is the persisted one.
\<close>

definition update ::
  "modules_json \<Rightarrow> modules_repo \<Rightarrow> mod_name \<Rightarrow> revision \<Rightarrow> modules_json" where
  "update mj repo module version =
     map_default (remote_url repo) [(repo_path repo, [(module, version)])]
       (map_default (repo_path repo) [(module, version)] (AList.update module version)) mj"

text \<open>
  Modelled from the spec: \<^verbatim>\<open>ModulesJson.load\<close>, not among the sources. Section 4.1:
  \<^verbatim>\<open>load()\<close> reads the persisted state into memory. Every mutation is persisted
  when it is made, so reading again gives the manifest as it is.
\<close>

definition load :: "modules_json \<Rightarrow> modules_json" where
  "load mj = mj"

text \<open>
  Modelled from the spec: \<^verbatim>\<open>ModuleCommand.clear_module_dir\<close> of
  \<^verbatim>\<open>nf_core/modules/modules_command.py\<close>, not among the sources. Section 4.3: a
  purge of the existing module directory.
\<close>

definition clear_module_dir :: "filesystem \<Rightarrow> mod_name \<Rightarrow> string \<Rightarrow> filesystem" where
  "clear_module_dir f module module_dir = f(module_dir := None)"

text \<open>
  Modelled from the spec: \<^verbatim>\<open>ModuleCommand.install_module_files\<close>, not among the
  sources. Section 4.4: creates the target directory if absent, retrieves the file set of
  the module at the revision and writes each file under the target directory; fails if a
  file cannot be retrieved or written, and a failure partway leaves the directory with
  what was written until then.
\<close>

definition install_module_files ::
  "env \<Rightarrow> filesystem \<Rightarrow> mod_name \<Rightarrow> revision \<Rightarrow> string \<Rightarrow> bool \<times> filesystem" where
  "install_module_files e f module version install_folder =
     (let target = os_path_join install_folder [module];
          present = (case f target of None \<Rightarrow> Map.empty | Some old \<Rightarrow> old)
      in case fetch_module_files e version module of
           Fetched fl \<Rightarrow> (True, f(target \<mapsto> present ++ fl))
         | FetchFailed part \<Rightarrow> (False, f(target \<mapsto> present ++ part)))"

section \<open>The install operation\<close>

subsection \<open>Lines 127 to 136: the loops over the manifest\<close>

text \<open>
  The three nested \<^verbatim>\<open>for\<close> loops over \<^verbatim>\<open>modules_json["repos"]\<close>. The
  innermost one stops at its first match (\<^verbatim>\<open>break\<close>); the two outer ones go
  on. Each loop runs over the \<^verbatim>\<open>items()\<close> it started with and passes on the
  manifest that \<^verbatim>\<open>remove_entry\<close> has changed.
\<close>

fun names_loop ::
  "mod_name \<Rightarrow> string \<Rightarrow> remote \<Rightarrow> string \<Rightarrow> dir_modules \<Rightarrow> modules_json \<Rightarrow> event list
     \<Rightarrow> modules_json \<times> event list" where
  "names_loop module rp repo_url d [] mj tr = (mj, tr)"
| "names_loop module rp repo_url d (nv # rest) mj tr =
     (if fst nv = module \<and> d = rp
      then (remove_entry mj module repo_url rp,
            tr @ [Log Info (RemovingFromModulesJson rp module repo_url),
                  RemoveEntry module repo_url rp])
      else names_loop module rp repo_url d rest mj tr)"

fun dirs_loop ::
  "mod_name \<Rightarrow> string \<Rightarrow> remote \<Rightarrow> repo_content \<Rightarrow> modules_json \<Rightarrow> event list
     \<Rightarrow> modules_json \<times> event list" where
  "dirs_loop module rp repo_url [] mj tr = (mj, tr)"
| "dirs_loop module rp repo_url (dm # rest) mj tr =
     (case names_loop module rp repo_url (fst dm) (snd dm) mj tr of
        (mj', tr') \<Rightarrow> dirs_loop module rp repo_url rest mj' tr')"

fun repos_loop ::
  "mod_name \<Rightarrow> string \<Rightarrow> modules_json \<Rightarrow> modules_json \<Rightarrow> event list
     \<Rightarrow> modules_json \<times> event list" where
  "repos_loop module rp [] mj tr = (mj, tr)"
| "repos_loop module rp (rc # rest) mj tr =
     (case dirs_loop module rp (fst rc) (snd rc) mj tr of
        (mj', tr') \<Rightarrow> repos_loop module rp rest mj' tr')"

subsection \<open>Lines 124 to 136: the body of \<^verbatim>\<open>if self.force\<close>\<close>

definition purge ::
  "module_install \<Rightarrow> mod_name \<Rightarrow> string \<Rightarrow> world \<Rightarrow> event list \<Rightarrow> world \<times> event list" where
  "purge self module module_dir w tr =
     (let rp = repo_path (modules_repo self);
          tr1 = tr @ [Log Info (RemovingInstalled rp module), ClearModuleDir module module_dir];
          f1 = clear_module_dir (fs w) module module_dir
      in case repos_loop module rp (manifest w) (manifest w) tr1 of
           (mj, tr2) \<Rightarrow> (\<lparr>fs = f1, manifest = mj\<rparr>, tr2))"

subsection \<open>Lines 124 to 155: purge, materialization, record\<close>

type_synonym install_result = "outcome \<times> module_install \<times> world \<times> event list"

definition install_resolved ::
  "env \<Rightarrow> module_install \<Rightarrow> mod_name \<Rightarrow> revision \<Rightarrow> string \<Rightarrow> string \<Rightarrow> bool \<Rightarrow> world
     \<Rightarrow> event list \<Rightarrow> install_result" where
  "install_resolved e self module version install_folder module_dir silent w tr =
     (case (if force self then purge self module module_dir w tr else (w, tr)) of
        (w1, tr1) \<Rightarrow>
          let tr2 = tr1 @ [Log Info (Installing (force self) module),
                           Log Debug (InstallingAt module version (remote_url (modules_repo self)))]
          in case install_module_files e (fs w1) module version install_folder of
               (ok, f2) \<Rightarrow>
                 if \<not> ok
                 then (Returned False, self, w1\<lparr>fs := f2\<rparr>,
                       tr2 @ [InstallModuleFiles module version install_folder False])
                 else (Returned True, self,
                       \<lparr>fs = f2,
                        manifest = update (load (manifest w1)) (modules_repo self) module version\<rparr>,
                       tr2 @ [InstallModuleFiles module version install_folder True]
                           @ (if \<not> silent
                              then [Log Info (IncludeStatement module
                                                (os_path_join install_folder [module]))]
                              else [])
                           @ [Load, Update module version]))"

subsection \<open>Lines 108 to 122: the version to install\<close>

definition install_version ::
  "env \<Rightarrow> module_install \<Rightarrow> mod_name \<Rightarrow> revision option \<Rightarrow> string \<Rightarrow> string \<Rightarrow> bool \<Rightarrow> world
     \<Rightarrow> event list \<Rightarrow> install_result" where
  "install_version e self module current_version install_folder module_dir silent w tr =
     (if truthy (sha self)
      then install_resolved e self module (the (sha self)) install_folder module_dir silent w tr
      else if prompt self
      then (case prompt_module_version_sha e module current_version of
              Chosen version \<Rightarrow>
                install_resolved e self module version install_folder module_dir silent w
                  (tr @ [PromptModuleVersionSha module current_version])
            | SystemError msg \<Rightarrow>
                (Returned False, self, w,
                 tr @ [PromptModuleVersionSha module current_version,
                       Log Error (SystemErrorText msg)])
            | Interrupted \<Rightarrow>
                (Raised KeyboardInterrupt, self, w,
                 tr @ [PromptModuleVersionSha module current_version]))
      else install_resolved e self module (get_latest_module_version e module)
             install_folder module_dir silent w
             (tr @ [GetLatestModuleVersion module (get_latest_module_version e module)]))"

subsection \<open>Lines 77 to 106: is the module already installed\<close>

definition install_folder_of :: "module_install \<Rightarrow> string" where
  "install_folder_of self = os_path_join (dir self) [''modules'', repo_path (modules_repo self)]"

definition module_dir_of :: "module_install \<Rightarrow> mod_name \<Rightarrow> string" where
  "module_dir_of self module = os_path_join (install_folder_of self) [module]"

definition install_existing ::
  "env \<Rightarrow> module_install \<Rightarrow> mod_name \<Rightarrow> bool \<Rightarrow> world \<Rightarrow> event list \<Rightarrow> install_result" where
  "install_existing e self module silent w tr =
     (let repo = modules_repo self;
          current_version = get_module_version (manifest w) module (remote_url repo) (repo_path repo);
          tr1 = tr @ [GetModuleVersion module (remote_url repo) (repo_path repo) current_version];
          install_folder = install_folder_of self;
          module_dir = module_dir_of self module;
          tr2 = tr1 @ (if current_version \<noteq> None
                       then [PathExists module_dir (path_exists (fs w) module_dir)] else [])
      in if (current_version \<noteq> None \<and> path_exists (fs w) module_dir) \<and> \<not> force self
         then (case confirm_force e module of
                 None \<Rightarrow>
                   (Raised KeyboardInterrupt, self, w,
                    tr2 @ [Log Info AlreadyInstalled, ConfirmForce module None])
               | Some answer \<Rightarrow>
                   let self1 = self\<lparr>force := answer\<rparr>;
                       tr3 = tr2 @ [Log Info AlreadyInstalled, ConfirmForce module (Some answer)]
                   in if \<not> force self1
                      then (Returned False, self1, w,
                            tr3 @ [Log Info (UpdateHint module
                                     (if repo_path repo = NF_CORE_MODULES_NAME e then []
                                      else ''-g '' @ remote_url repo @ '' '')
                                     (if branch repo = ''master'' then []
                                      else ''-b '' @ branch repo @ '' ''))])
                      else install_version e self1 module current_version install_folder
                             module_dir silent w tr3)
         else install_version e self module current_version install_folder module_dir silent w tr2)"

subsection \<open>Lines 64 to 75: is the module available\<close>

definition install_named ::
  "env \<Rightarrow> module_install \<Rightarrow> mod_name \<Rightarrow> bool \<Rightarrow> world \<Rightarrow> event list \<Rightarrow> install_result" where
  "install_named e self module silent w tr =
     (if module \<noteq> [] \<and> module \<notin> set (get_avail_modules e)
      then (Returned False, self, w,
            tr @ [GetAvailModules, Log Error (NotInAvailableModules module), Log Info UseModulesList])
      else let tr1 = tr @ (if module \<noteq> [] then [GetAvailModules] else [])
           in if \<not> module_exists e module
              then (Returned False, self, w,
                    tr1 @ [ModuleExists module False,
                           Log Warning (NotFoundInRemote module (remote_url (modules_repo self))
                                          (branch (modules_repo self)))])
              else install_existing e self module silent w (tr1 @ [ModuleExists module True]))"

subsection \<open>Lines 32 to 62: \<^verbatim>\<open>ModuleInstall.install\<close>\<close>

definition install ::
  "env \<Rightarrow> module_install \<Rightarrow> mod_name option \<Rightarrow> bool \<Rightarrow> world \<Rightarrow> install_result" where
  "install e self module silent w =
     (if repo_type self = ''modules''
      then (Returned False, self, w, [Log Error CannotInstallInClone])
      else if \<not> has_valid_directory e
      then (Returned False, self, w, [HasValidDirectory False])
      else
        let w1 = w\<lparr>manifest := check_up_to_date e (fs w) (manifest w)\<rparr>;
            tr1 = [HasValidDirectory True, CheckModulesStructure, CheckUpToDate]
        in if prompt self \<and> sha self \<noteq> None
           then (Returned False, self, w1, tr1 @ [Log Error ShaAndPrompt])
           else if truthy (sha self) \<and> \<not> sha_exists_on_branch e (the (sha self))
           then (Returned False, self, w1,
                 tr1 @ [ShaExistsOnBranch (the (sha self)) False,
                        Log Error (ShaDoesNotExist (the (sha self)) (remote_url (modules_repo self)))])
           else
             let tr2 = tr1 @ (if truthy (sha self)
                              then [ShaExistsOnBranch (the (sha self)) True] else [])
             in case module of
                  None \<Rightarrow>
                    (case ask_module e (get_avail_modules e) of
                       None \<Rightarrow> (Raised KeyboardInterrupt, self, w1,
                                tr2 @ [GetAvailModules, AskModule None])
                     | Some chosen \<Rightarrow>
                         install_named e self chosen silent w1
                           (tr2 @ [GetAvailModules, AskModule (Some chosen)]))
                | Some given \<Rightarrow> install_named e self given silent w1 tr2)"

section \<open>Auxiliary notions\<close>

text \<open>The entries of the manifest under one remote, directory and name.\<close>

definition entry_of :: "remote \<Rightarrow> string \<Rightarrow> mod_name \<Rightarrow> (remote \<times> string \<times> mod_name \<times> revision) \<Rightarrow> bool" where
  "entry_of r p n = (\<lambda>t. fst t = r \<and> fst (snd t) = p \<and> fst (snd (snd t)) = n)"

text \<open>
  What the loops of lines 127 to 136 do, in closed form: \<open>hits\<close> lists the remote of
  every directory entry that has the repository path and holds the module, in the order
  of the scan; each of them gets one call of \<^verbatim>\<open>remove_entry\<close> and two events.
\<close>

definition hits :: "mod_name \<Rightarrow> string \<Rightarrow> modules_json \<Rightarrow> remote list" where
  "hits module rp rs =
     concat (map (\<lambda>rc. map (\<lambda>dm. fst rc)
                          (filter (\<lambda>dm. fst dm = rp \<and> map_of (snd dm) module \<noteq> None) (snd rc))) rs)"

definition removals :: "mod_name \<Rightarrow> string \<Rightarrow> remote list \<Rightarrow> event list" where
  "removals module rp us =
     concat (map (\<lambda>u. [Log Info (RemovingFromModulesJson rp module u), RemoveEntry module u rp]) us)"

definition remove_all :: "mod_name \<Rightarrow> string \<Rightarrow> remote list \<Rightarrow> modules_json \<Rightarrow> modules_json" where
  "remove_all module rp us mj = foldl (\<lambda>a u. remove_entry a module u rp) mj us"

text \<open>The purge of lines 124 to 136 in closed form: its events and what it leaves.\<close>

definition purge_events :: "module_install \<Rightarrow> mod_name \<Rightarrow> string \<Rightarrow> modules_json \<Rightarrow> event list" where
  "purge_events self module module_dir mj =
     (if force self
      then [Log Info (RemovingInstalled (repo_path (modules_repo self)) module),
            ClearModuleDir module module_dir]
           @ removals module (repo_path (modules_repo self))
               (hits module (repo_path (modules_repo self)) mj)
      else [])"

definition purged_manifest :: "module_install \<Rightarrow> mod_name \<Rightarrow> modules_json \<Rightarrow> modules_json" where
  "purged_manifest self module mj =
     (if force self
      then remove_all module (repo_path (modules_repo self))
             (hits module (repo_path (modules_repo self)) mj) mj
      else mj)"

definition purged_fs :: "module_install \<Rightarrow> string \<Rightarrow> filesystem \<Rightarrow> filesystem" where
  "purged_fs self module_dir f = (if force self then f(module_dir := None) else f)"

text \<open>The first part of the test at line 88: a recorded version and an existing directory.\<close>

definition already_installed :: "module_install \<Rightarrow> mod_name \<Rightarrow> world \<Rightarrow> bool" where
  "already_installed self module w =
     (get_module_version (manifest w) module (remote_url (modules_repo self))
        (repo_path (modules_repo self)) \<noteq> None
      \<and> path_exists (fs w) (module_dir_of self module))"

text \<open>The events of the catalog check of lines 64 to 68.\<close>

fun is_catalog :: "event \<Rightarrow> bool" where
  "is_catalog GetAvailModules = True"
| "is_catalog (Log _ (NotInAvailableModules _)) = True"
| "is_catalog (Log _ UseModulesList) = True"
| "is_catalog _ = False"

text \<open>The materialization and the record of lines 142 and 154.\<close>

fun is_materialize_or_update :: "event \<Rightarrow> bool" where
  "is_materialize_or_update (InstallModuleFiles _ _ _ _) = True"
| "is_materialize_or_update (Update _ _) = True"
| "is_materialize_or_update _ = False"

section \<open>Concrete inputs\<close>

text \<open>
  A pipeline, a remote with the modules \<^verbatim>\<open>foo\<close> and \<^verbatim>\<open>bar\<close> whose latest
  revision is \<^verbatim>\<open>abc123\<close>, prompts that pick \<^verbatim>\<open>foo\<close> and decline a forced
  reinstallation, and an empty project.
\<close>

definition ex_repo :: modules_repo where
  "ex_repo = \<lparr>remote_url = ''git/nf-core'', repo_path = ''nf-core/modules'', branch = ''master''\<rparr>"

definition ex_self :: module_install where
  "ex_self = \<lparr>repo_type = ''pipeline'', dir = ''pipe'', force = False, prompt = False,
              sha = None, modules_repo = ex_repo\<rparr>"

definition ex_env :: env where
  "ex_env = \<lparr>has_valid_directory = True,
             check_up_to_date = (\<lambda>f mj. mj),
             sha_exists_on_branch = (\<lambda>s. s = ''abc123''),
             get_avail_modules = [''foo'', ''bar''],
             module_exists = (\<lambda>m. m = ''foo'' \<or> m = ''bar''),
             get_latest_module_version = (\<lambda>m. ''abc123''),
             fetch_module_files = (\<lambda>v m. Fetched [''main.nf'' \<mapsto> v]),
             ask_module = (\<lambda>choices. Some ''foo''),
             confirm_force = (\<lambda>m. Some False),
             prompt_module_version_sha = (\<lambda>m cur. Chosen ''abc123''),
             NF_CORE_MODULES_NAME = ''nf-core/modules''\<rparr>"

definition ex_world :: world where
  "ex_world = \<lparr>fs = Map.empty, manifest = []\<rparr>"

text \<open>The project after \<^verbatim>\<open>foo\<close> was installed at revision \<^verbatim>\<open>abc123\<close>.\<close>

definition ex_installed :: world where
  "ex_installed =
     \<lparr>fs = [''pipe/modules/nf-core/modules/foo'' \<mapsto> [''main.nf'' \<mapsto> ''abc123'']],
      manifest = [(''git/nf-core'', [(''nf-core/modules'', [(''foo'', ''abc123'')])])]\<rparr>"


section \<open>The manifest store\<close>

lemma gmv_remove_entry:
  "get_module_version (remove_entry mj m url d) n r p =
     (if n = m \<and> r = url \<and> p = d then None else get_module_version mj n r p)"
  by (auto simp: get_module_version_def remove_entry_def map_of_map_entry AList.delete_conv'
           split: option.splits)

lemma gmv_update:
  "get_module_version (update mj repo m v) n r p =
     (if n = m \<and> r = remote_url repo \<and> p = repo_path repo then Some v
      else get_module_version mj n r p)"
  by (auto simp: get_module_version_def update_def map_of_map_default AList.update_conv'
           split: option.splits)

lemma list_all_map_entry:
  "list_all P xs \<Longrightarrow> (\<And>v. P (k, v) \<Longrightarrow> P (k, f v)) \<Longrightarrow> list_all P (AList.map_entry k f xs)"
  by (induction xs) auto

lemma list_all_map_default:
  "list_all P xs \<Longrightarrow> P (k, d) \<Longrightarrow> (\<And>v. P (k, v) \<Longrightarrow> P (k, f v)) \<Longrightarrow> list_all P (map_default k d f xs)"
  by (induction xs) auto

lemma wf_remove_entry:
  "wf_modules_json mj \<Longrightarrow> wf_modules_json (remove_entry mj m url d)"
  unfolding wf_modules_json_def remove_entry_def
  by (auto intro!: list_all_map_entry distinct_map_entry AList.distinct_delete)

lemma wf_update:
  "wf_modules_json mj \<Longrightarrow> wf_modules_json (update mj repo m v)"
  unfolding wf_modules_json_def update_def
  by (auto intro!: list_all_map_default distinct_map_default AList.distinct_update)


lemma filter_concat_keyed:
  assumes "distinct (map fst xs)"
    and "\<And>kv. kv \<in> set xs \<Longrightarrow> fst kv \<noteq> k \<Longrightarrow> filter Q (g kv) = []"
  shows "filter Q (concat (map g xs)) =
           (case map_of xs k of None \<Rightarrow> [] | Some v \<Rightarrow> filter Q (g (k, v)))"
  using assms
proof (induction xs)
  case Nil
  then show ?case by simp
next
  case (Cons a xs)
  show ?case
  proof (cases "fst a = k")
    case True
    with Cons.prems(1) have "map_of xs k = None"
      by (simp add: map_of_eq_None_iff)
    with Cons True show ?thesis by (cases a) (auto split: option.splits)
  next
    case False
    with Cons show ?thesis by (cases a) auto
  qed
qed

lemma entries_lookup:
  assumes "wf_modules_json mj"
  shows "filter (entry_of r p n) (entries mj) =
           (case get_module_version mj n r p of None \<Rightarrow> [] | Some v \<Rightarrow> [(r, p, n, v)])"
proof -
  let ?names = "\<lambda>rc dm. map (\<lambda>nv. (fst rc, fst dm, fst nv, snd nv)) (snd dm)"
  let ?dirs = "\<lambda>rc. concat (map (?names rc) (snd rc))"
  have names: "filter (entry_of r p n) (?names (r, c) (p, dm)) =
                 (case map_of dm n of None \<Rightarrow> [] | Some v \<Rightarrow> [(r, p, n, v)])"
    if "distinct (map fst dm)" for c dm
  proof -
    have "?names (r, c) (p, dm) = concat (map (\<lambda>nv. [(r, p, fst nv, snd nv)]) dm)"
      by (induction dm) auto
    also have "filter (entry_of r p n) \<dots> =
                 (case map_of dm n of None \<Rightarrow> []
                  | Some v \<Rightarrow> filter (entry_of r p n) [(r, p, fst (n, v), snd (n, v))])"
      by (rule filter_concat_keyed [OF that]) (simp add: entry_of_def)
    finally show ?thesis by (simp add: entry_of_def split: option.splits)
  qed
  have dirs: "filter (entry_of r p n) (?dirs (r, c)) =
                (case map_of c p of None \<Rightarrow> []
                 | Some dm \<Rightarrow> (case map_of dm n of None \<Rightarrow> [] | Some v \<Rightarrow> [(r, p, n, v)]))"
    if "distinct (map fst c)" "list_all (\<lambda>dm. distinct (map fst (snd dm))) c" for c
  proof -
    have "filter (entry_of r p n) (concat (map (?names (r, c)) c)) =
            (case map_of c p of None \<Rightarrow> []
             | Some dm \<Rightarrow> filter (entry_of r p n) (?names (r, c) (p, dm)))"
      by (rule filter_concat_keyed [OF that(1)]) (auto simp: entry_of_def filter_empty_conv)
    then have A: "filter (entry_of r p n) (?dirs (r, c)) =
            (case map_of c p of None \<Rightarrow> []
             | Some dm \<Rightarrow> filter (entry_of r p n) (?names (r, c) (p, dm)))"
      by simp
    show ?thesis
    proof (cases "map_of c p")
      case None
      with A show ?thesis by simp
    next
      case (Some dm)
      then have "distinct (map fst dm)"
        using \<open>list_all _ c\<close> by (auto simp: list_all_iff dest!: map_of_SomeD)
      from names [OF this, of c] A Some show ?thesis by simp
    qed
  qed
  have wf: "distinct (map fst mj)"
    "\<And>rc. rc \<in> set mj \<Longrightarrow> distinct (map fst (snd rc)) \<and> list_all (\<lambda>dm. distinct (map fst (snd dm))) (snd rc)"
    using assms by (auto simp: wf_modules_json_def list_all_iff)
  have "filter (entry_of r p n) (concat (map ?dirs mj)) =
          (case map_of mj r of None \<Rightarrow> [] | Some c \<Rightarrow> filter (entry_of r p n) (?dirs (r, c)))"
    by (rule filter_concat_keyed [OF wf(1)]) (auto simp: entry_of_def filter_empty_conv)
  then have B: "filter (entry_of r p n) (entries mj) =
          (case map_of mj r of None \<Rightarrow> [] | Some c \<Rightarrow> filter (entry_of r p n) (?dirs (r, c)))"
    by (simp add: entries_def)
  show ?thesis
  proof (cases "map_of mj r")
    case None
    with B show ?thesis by (simp add: get_module_version_def)
  next
    case (Some c)
    then have "distinct (map fst c)" "list_all (\<lambda>dm. distinct (map fst (snd dm))) c"
      using wf(2) [of "(r, c)"] by (auto dest!: map_of_SomeD)
    from dirs [OF this] B Some show ?thesis
      by (simp add: get_module_version_def split: option.splits)
  qed
qed


section \<open>The loops in closed form\<close>

lemma names_loop_eq:
  "names_loop m rp u d nvs mj tr =
     (if d = rp \<and> map_of nvs m \<noteq> None
      then (remove_entry mj m u rp, tr @ removals m rp [u])
      else (mj, tr))"
  by (induction nvs) (auto simp: removals_def)

lemma dirs_loop_eq:
  "dirs_loop m rp u dms mj tr =
     (remove_all m rp (hits m rp [(u, dms)]) mj, tr @ removals m rp (hits m rp [(u, dms)]))"
  by (induction dms arbitrary: mj tr)
     (auto simp: names_loop_eq hits_def removals_def remove_all_def)

lemma hits_Cons: "hits m rp (rc # rs) = hits m rp [(fst rc, snd rc)] @ hits m rp rs"
  by (simp add: hits_def)

lemma repos_loop_eq:
  "repos_loop m rp rs mj tr = (remove_all m rp (hits m rp rs) mj, tr @ removals m rp (hits m rp rs))"
proof (induction rs arbitrary: mj tr)
  case Nil
  then show ?case by (simp add: hits_def removals_def remove_all_def)
next
  case (Cons rc rs)
  show ?case
    by (simp add: dirs_loop_eq Cons.IH hits_Cons [of m rp rc rs] removals_def remove_all_def)
qed

lemma gmv_remove_all:
  "get_module_version (remove_all m rp us mj) n r p =
     (if n = m \<and> p = rp \<and> r \<in> set us then None else get_module_version mj n r p)"
  by (induction us arbitrary: mj) (auto simp: remove_all_def gmv_remove_entry)

lemma wf_remove_all: "wf_modules_json mj \<Longrightarrow> wf_modules_json (remove_all m rp us mj)"
  by (induction us arbitrary: mj) (auto simp: remove_all_def wf_remove_entry)

lemma hits_complete:
  assumes "get_module_version mj m r rp \<noteq> None"
  shows "r \<in> set (hits m rp mj)"
proof -
  from assms obtain c dm where c: "map_of mj r = Some c" and dm: "map_of c rp = Some dm"
    and v: "map_of dm m \<noteq> None"
    by (auto simp: get_module_version_def split: option.splits)
  from c have "(r, c) \<in> set mj" by (rule map_of_SomeD)
  moreover from dm have "(rp, dm) \<in> set c" by (rule map_of_SomeD)
  ultimately show ?thesis using v by (force simp: hits_def)
qed

lemma gmv_purged:
  "get_module_version (remove_all m rp (hits m rp mj) mj) n r p =
     (if n = m \<and> p = rp then None else get_module_version mj n r p)"
proof (cases "get_module_version mj m r rp")
  case None
  then show ?thesis by (simp add: gmv_remove_all)
next
  case (Some v)
  then have "r \<in> set (hits m rp mj)" by (simp add: hits_complete)
  then show ?thesis by (simp add: gmv_remove_all)
qed

lemma filter_removals:
  "filter is_materialize (removals m rp us) = []"
  "filter is_update (removals m rp us) = []"
  "filter is_confirm (removals m rp us) = []"
  by (induction us) (auto simp: removals_def)


lemma purge_eq:
  "purge self m mdir w tr =
     (\<lparr>fs = (fs w)(mdir := None),
       manifest = remove_all m (repo_path (modules_repo self))
                    (hits m (repo_path (modules_repo self)) (manifest w)) (manifest w)\<rparr>,
      tr @ [Log Info (RemovingInstalled (repo_path (modules_repo self)) m), ClearModuleDir m mdir]
         @ removals m (repo_path (modules_repo self))
             (hits m (repo_path (modules_repo self)) (manifest w)))"
  by (simp add: purge_def repos_loop_eq clear_module_dir_def Let_def)

lemma install_resolved_eq:
  "install_resolved e self m v folder mdir silent w tr =
     (let f1 = purged_fs self mdir (fs w);
          mj1 = purged_manifest self m (manifest w);
          tr2 = tr @ purge_events self m mdir (manifest w)
                   @ [Log Info (Installing (force self) m),
                      Log Debug (InstallingAt m v (remote_url (modules_repo self)))];
          ok = fst (install_module_files e f1 m v folder);
          f2 = snd (install_module_files e f1 m v folder)
      in if \<not> ok
         then (Returned False, self, \<lparr>fs = f2, manifest = mj1\<rparr>,
               tr2 @ [InstallModuleFiles m v folder False])
         else (Returned True, self, \<lparr>fs = f2, manifest = update mj1 (modules_repo self) m v\<rparr>,
               tr2 @ [InstallModuleFiles m v folder True]
                   @ (if \<not> silent
                      then [Log Info (IncludeStatement m (os_path_join folder [m]))] else [])
                   @ [Load, Update m v]))"
  by (cases "force self")
     (auto simp: install_resolved_def purge_eq purged_fs_def purged_manifest_def purge_events_def
                 load_def Let_def split: prod.splits)


section \<open>Every path through the install\<close>

text \<open>
  An install either stops before it writes anything, or reaches lines 124 to 155 with a
  module name, a version and a force flag. The rules below collect, stage by stage, what
  holds on each of the two kinds of path.
\<close>

lemma force_False_id: "\<not> force s \<Longrightarrow> s\<lparr>force := False\<rparr> = s"
  by (cases s) simp

lemma force_True_id: "force s \<Longrightarrow> s\<lparr>force := True\<rparr> = s"
  by (cases s) simp

lemma install_version_rule:
  assumes early: "\<And>res tr'. res \<noteq> Returned True \<Longrightarrow> filter is_write tr' = filter is_write tr
            \<Longrightarrow> filter is_confirm tr' = filter is_confirm tr \<Longrightarrow> Q (res, self, w, tr')"
    and resolved: "\<And>v tr0. filter is_write tr0 = filter is_write tr
            \<Longrightarrow> filter is_confirm tr0 = filter is_confirm tr
            \<Longrightarrow> (truthy (sha self) \<longrightarrow> v = the (sha self))
            \<Longrightarrow> (\<not> truthy (sha self) \<and> \<not> prompt self \<longrightarrow> v = get_latest_module_version e m)
            \<Longrightarrow> (\<not> truthy (sha self) \<and> prompt self \<longrightarrow> prompt_module_version_sha e m cur = Chosen v)
            \<Longrightarrow> Q (install_resolved e self m v folder mdir silent w tr0)"
  shows "Q (install_version e self m cur folder mdir silent w tr)"
  unfolding install_version_def
  by (auto split: prompt_result.splits intro!: early resolved)

lemma install_existing_rule:
  assumes early: "\<And>res tr' self1. res \<noteq> Returned True \<Longrightarrow> filter is_write tr' = filter is_write tr
            \<Longrightarrow> (self1 = self \<and> filter is_confirm tr' = filter is_confirm tr
                 \<or> \<not> force self \<and> already_installed self m w
                   \<and> filter is_confirm tr' = filter is_confirm tr @ [ConfirmForce m (confirm_force e m)]
                   \<and> self1 = (if confirm_force e m = Some True then self\<lparr>force := True\<rparr> else self))
            \<Longrightarrow> Q (res, self1, w, tr')"
    and resolved: "\<And>v tr0 self1. filter is_write tr0 = filter is_write tr
            \<Longrightarrow> (self1 = self \<and> filter is_confirm tr0 = filter is_confirm tr
                   \<and> (force self \<or> \<not> already_installed self m w)
                 \<or> \<not> force self \<and> already_installed self m w \<and> confirm_force e m = Some True
                   \<and> filter is_confirm tr0 = filter is_confirm tr @ [ConfirmForce m (Some True)]
                   \<and> self1 = self\<lparr>force := True\<rparr>)
            \<Longrightarrow> (truthy (sha self) \<longrightarrow> v = the (sha self))
            \<Longrightarrow> (\<not> truthy (sha self) \<and> \<not> prompt self \<longrightarrow> v = get_latest_module_version e m)
            \<Longrightarrow> (\<not> truthy (sha self) \<and> prompt self \<longrightarrow>
                   prompt_module_version_sha e m
                     (get_module_version (manifest w) m (remote_url (modules_repo self))
                        (repo_path (modules_repo self))) = Chosen v)
            \<Longrightarrow> Q (install_resolved e self1 m v (install_folder_of self) (module_dir_of self m)
                     silent w tr0)"
  shows "Q (install_existing e self m silent w tr)"
proof -
  let ?cur = "get_module_version (manifest w) m (remote_url (modules_repo self))
                (repo_path (modules_repo self))"
  let ?mdir = "module_dir_of self m"
  have inst: "already_installed self m w = (?cur \<noteq> None \<and> path_exists (fs w) ?mdir)"
    by (simp add: already_installed_def)
  show ?thesis
  proof (cases "already_installed self m w \<and> \<not> force self")
    case False
    show ?thesis
      unfolding install_existing_def Let_def
      using False unfolding inst
      apply (simp only: if_False)
      apply (rule install_version_rule)
       apply (rule early [where ?self1.0 = self]; simp)
      apply (rule resolved [where ?self1.0 = self]; simp add: inst; blast)
      done
  next
    case True
    show ?thesis
    proof (cases "confirm_force e m")
      case None
      with True show ?thesis
        unfolding install_existing_def Let_def inst
        by (auto intro!: early [where ?self1.0 = self] simp: inst)
    next
      case (Some answer)
      show ?thesis
      proof (cases answer)
        case False
        with True Some show ?thesis
          unfolding install_existing_def Let_def inst
          by (auto intro!: early [where ?self1.0 = self] simp: force_False_id inst)
      next
        case ans: True
        have "Q (install_version e (self\<lparr>force := True\<rparr>) m ?cur (install_folder_of self) ?mdir silent w
                  (tr @ [GetModuleVersion m (remote_url (modules_repo self))
                           (repo_path (modules_repo self)) ?cur,
                         PathExists ?mdir True, Log Info AlreadyInstalled,
                         ConfirmForce m (Some True)]))"
          apply (rule install_version_rule)
           apply (rule early [where ?self1.0 = "self\<lparr>force := True\<rparr>"];
                  use True Some ans in simp)
          apply (rule resolved [where ?self1.0 = "self\<lparr>force := True\<rparr>"];
                 use True Some ans in simp)
          done
        with True Some ans show ?thesis
          unfolding install_existing_def Let_def inst by auto
      qed
    qed
  qed
qed

lemma install_named_rule:
  assumes early: "\<And>res tr' self1. res \<noteq> Returned True \<Longrightarrow> filter is_write tr' = filter is_write tr
            \<Longrightarrow> (self1 = self \<and> filter is_confirm tr' = filter is_confirm tr
                 \<or> \<not> force self \<and> already_installed self m w
                   \<and> filter is_confirm tr' = filter is_confirm tr @ [ConfirmForce m (confirm_force e m)]
                   \<and> self1 = (if confirm_force e m = Some True then self\<lparr>force := True\<rparr> else self))
            \<Longrightarrow> Q (res, self1, w, tr')"
    and resolved: "\<And>v tr0 self1. filter is_write tr0 = filter is_write tr
            \<Longrightarrow> (self1 = self \<and> filter is_confirm tr0 = filter is_confirm tr
                   \<and> (force self \<or> \<not> already_installed self m w)
                 \<or> \<not> force self \<and> already_installed self m w \<and> confirm_force e m = Some True
                   \<and> filter is_confirm tr0 = filter is_confirm tr @ [ConfirmForce m (Some True)]
                   \<and> self1 = self\<lparr>force := True\<rparr>)
            \<Longrightarrow> (truthy (sha self) \<longrightarrow> v = the (sha self))
            \<Longrightarrow> (\<not> truthy (sha self) \<and> \<not> prompt self \<longrightarrow> v = get_latest_module_version e m)
            \<Longrightarrow> (\<not> truthy (sha self) \<and> prompt self \<longrightarrow>
                   prompt_module_version_sha e m
                     (get_module_version (manifest w) m (remote_url (modules_repo self))
                        (repo_path (modules_repo self))) = Chosen v)
            \<Longrightarrow> (m \<noteq> [] \<longrightarrow> m \<in> set (get_avail_modules e))
            \<Longrightarrow> module_exists e m
            \<Longrightarrow> Q (install_resolved e self1 m v (install_folder_of self) (module_dir_of self m)
                     silent w tr0)"
  shows "Q (install_named e self m silent w tr)"
proof (cases "m \<noteq> [] \<and> m \<notin> set (get_avail_modules e)")
  case True
  then show ?thesis
    unfolding install_named_def
    by (auto intro!: early [where ?self1.0 = self])
next
  case avail: False
  show ?thesis
  proof (cases "module_exists e m")
    case False
    with avail show ?thesis
      unfolding install_named_def Let_def
      by (auto intro!: early [where ?self1.0 = self])
  next
    case True
    have "Q (install_existing e self m silent w
               (tr @ (if m \<noteq> [] then [GetAvailModules] else []) @ [ModuleExists m True]))"
      apply (rule install_existing_rule)
       apply (rule early; simp)
      apply (rule resolved; use avail True in \<open>simp; blast?\<close>)
      done
    with avail True show ?thesis
      unfolding install_named_def Let_def by auto
  qed
qed

lemma install_rule:
  assumes early: "\<And>res tr' self1 w'. res \<noteq> Returned True \<Longrightarrow> filter is_write tr' = []
            \<Longrightarrow> (self1 = self \<and> filter is_confirm tr' = []
                 \<or> \<not> force self
                   \<and> (\<exists>m. already_installed self m
                              (w\<lparr>manifest := check_up_to_date e (fs w) (manifest w)\<rparr>)
                          \<and> filter is_confirm tr' = [ConfirmForce m (confirm_force e m)]
                          \<and> self1 = (if confirm_force e m = Some True
                                     then self\<lparr>force := True\<rparr> else self)))
            \<Longrightarrow> fs w' = fs w
            \<Longrightarrow> (manifest w' = manifest w
                 \<or> manifest w' = check_up_to_date e (fs w) (manifest w))
            \<Longrightarrow> Q (res, self1, w', tr')"
    and resolved: "\<And>m v tr0 self1. filter is_write tr0 = []
            \<Longrightarrow> (self1 = self \<and> filter is_confirm tr0 = []
                   \<and> (force self \<or> \<not> already_installed self m
                                       (w\<lparr>manifest := check_up_to_date e (fs w) (manifest w)\<rparr>))
                 \<or> \<not> force self
                   \<and> already_installed self m
                       (w\<lparr>manifest := check_up_to_date e (fs w) (manifest w)\<rparr>)
                   \<and> confirm_force e m = Some True
                   \<and> filter is_confirm tr0 = [ConfirmForce m (Some True)]
                   \<and> self1 = self\<lparr>force := True\<rparr>)
            \<Longrightarrow> (truthy (sha self) \<longrightarrow> v = the (sha self))
            \<Longrightarrow> (\<not> truthy (sha self) \<and> \<not> prompt self \<longrightarrow> v = get_latest_module_version e m)
            \<Longrightarrow> (\<not> truthy (sha self) \<and> prompt self \<longrightarrow>
                   prompt_module_version_sha e m
                     (get_module_version (check_up_to_date e (fs w) (manifest w)) m
                        (remote_url (modules_repo self)) (repo_path (modules_repo self))) = Chosen v)
            \<Longrightarrow> (m \<noteq> [] \<longrightarrow> m \<in> set (get_avail_modules e))
            \<Longrightarrow> module_exists e m
            \<Longrightarrow> (module = Some m \<or> module = None \<and> ask_module e (get_avail_modules e) = Some m)
            \<Longrightarrow> repo_type self \<noteq> ''modules''
            \<Longrightarrow> has_valid_directory e
            \<Longrightarrow> \<not> (prompt self \<and> sha self \<noteq> None)
            \<Longrightarrow> (truthy (sha self) \<longrightarrow> sha_exists_on_branch e (the (sha self)))
            \<Longrightarrow> Q (install_resolved e self1 m v (install_folder_of self) (module_dir_of self m)
                     silent (w\<lparr>manifest := check_up_to_date e (fs w) (manifest w)\<rparr>) tr0)"
  shows "Q (install e self module silent w)"
proof -
  let ?w1 = "w\<lparr>manifest := check_up_to_date e (fs w) (manifest w)\<rparr>"
  let ?tr2 = "[HasValidDirectory True, CheckModulesStructure, CheckUpToDate]
              @ (if truthy (sha self) then [ShaExistsOnBranch (the (sha self)) True] else [])"
  consider (stop) "repo_type self = ''modules'' \<or> \<not> has_valid_directory e
                   \<or> (prompt self \<and> sha self \<noteq> None)
                   \<or> (truthy (sha self) \<and> \<not> sha_exists_on_branch e (the (sha self)))"
    | (go) "repo_type self \<noteq> ''modules''" "has_valid_directory e"
           "\<not> (prompt self \<and> sha self \<noteq> None)"
           "truthy (sha self) \<longrightarrow> sha_exists_on_branch e (the (sha self))"
    by blast
  then show ?thesis
  proof cases
    case stop
    then show ?thesis
      unfolding install_def Let_def
      by (auto intro!: early [where ?self1.0 = self])
  next
    case go
    have named: "Q (install_named e self m silent ?w1 tr)"
      if "filter is_write tr = []" "filter is_confirm tr = []"
        "module = Some m \<or> module = None \<and> ask_module e (get_avail_modules e) = Some m"
      for m tr
    proof (rule install_named_rule)
      fix res tr' self1
      assume "res \<noteq> Returned True" "filter is_write tr' = filter is_write tr"
        and "self1 = self \<and> filter is_confirm tr' = filter is_confirm tr
             \<or> \<not> force self \<and> already_installed self m ?w1
               \<and> filter is_confirm tr' = filter is_confirm tr @ [ConfirmForce m (confirm_force e m)]
               \<and> self1 = (if confirm_force e m = Some True then self\<lparr>force := True\<rparr> else self)"
      with that show "Q (res, self1, ?w1, tr')"
        by (intro early) auto
    next
      fix v tr0 self1
      assume "filter is_write tr0 = filter is_write tr"
        and "self1 = self \<and> filter is_confirm tr0 = filter is_confirm tr
               \<and> (force self \<or> \<not> already_installed self m ?w1)
             \<or> \<not> force self \<and> already_installed self m ?w1 \<and> confirm_force e m = Some True
               \<and> filter is_confirm tr0 = filter is_confirm tr @ [ConfirmForce m (Some True)]
               \<and> self1 = self\<lparr>force := True\<rparr>"
        and "truthy (sha self) \<longrightarrow> v = the (sha self)"
        and "\<not> truthy (sha self) \<and> \<not> prompt self \<longrightarrow> v = get_latest_module_version e m"
        and "\<not> truthy (sha self) \<and> prompt self \<longrightarrow>
             prompt_module_version_sha e m
               (get_module_version (manifest ?w1) m (remote_url (modules_repo self))
                  (repo_path (modules_repo self))) = Chosen v"
        and "m \<noteq> [] \<longrightarrow> m \<in> set (get_avail_modules e)"
        and "module_exists e m"
      with that go
      show "Q (install_resolved e self1 m v (install_folder_of self) (module_dir_of self m)
                 silent ?w1 tr0)"
        by (intro resolved) auto
    qed
    show ?thesis
    proof (cases module)
      case (Some given)
      have "Q (install_named e self given silent ?w1 ?tr2)"
        by (rule named) (use Some in auto)
      with go Some show ?thesis
        unfolding install_def Let_def by auto
    next
      case None
      show ?thesis
      proof (cases "ask_module e (get_avail_modules e)")
        case ask: None
        with go None show ?thesis
          unfolding install_def Let_def
          by (auto intro!: early [where ?self1.0 = self])
      next
        case (Some chosen)
        have "Q (install_named e self chosen silent ?w1 (?tr2 @ [GetAvailModules, AskModule (Some chosen)]))"
          by (rule named) (use None Some in auto)
        with go None Some show ?thesis
          unfolding install_def Let_def by auto
      qed
    qed
  qed
qed

section \<open>Facts about the trace and the purge\<close>

lemma module_dir_plain:
  assumes "dir self \<noteq> []" "last (dir self) \<noteq> CHR ''/''"
    and "rp = repo_path (modules_repo self)" "rp \<noteq> []" "hd rp \<noteq> CHR ''/''" "last rp \<noteq> CHR ''/''"
    and "m \<noteq> []" "hd m \<noteq> CHR ''/''"
  shows "module_dir_of self m = dir self @ ''/modules/'' @ rp @ ''/'' @ m"
  using assms
  by (simp add: module_dir_of_def install_folder_of_def os_path_join_def join_step_def)

lemma in_removals:
  "x \<in> set (removals m rp us) \<longleftrightarrow>
     (\<exists>u \<in> set us. x = Log Info (RemovingFromModulesJson rp m u) \<or> x = RemoveEntry m u rp)"
  by (induction us) (auto simp: removals_def)

lemma in_purge_events:
  "x \<in> set (purge_events self m mdir mj) \<longleftrightarrow>
     force self \<and>
     (x = Log Info (RemovingInstalled (repo_path (modules_repo self)) m)
      \<or> x = ClearModuleDir m mdir
      \<or> (\<exists>u \<in> set (hits m (repo_path (modules_repo self)) mj).
            x = Log Info (RemovingFromModulesJson (repo_path (modules_repo self)) m u)
            \<or> x = RemoveEntry m u (repo_path (modules_repo self))))"
  by (auto simp: purge_events_def in_removals)

lemma not_write_in_trace: "filter is_write tr = [] \<Longrightarrow> x \<in> set tr \<Longrightarrow> \<not> is_write x"
  by (simp add: filter_empty_conv)

lemma filter_removals_none:
  assumes "\<And>u. \<not> P (Log Info (RemovingFromModulesJson rp m u)) \<and> \<not> P (RemoveEntry m u rp)"
  shows "filter P (removals m rp us) = []"
  using assms by (induction us) (auto simp: removals_def)

lemma resolved_catalog:
  "filter is_catalog (snd (snd (snd (install_resolved e self m v folder mdir silent w tr)))) =
     filter is_catalog tr"
  by (simp add: install_resolved_eq Let_def purge_events_def filter_removals_none)

lemma version_catalog:
  "filter is_catalog (snd (snd (snd (install_version e self m cur folder mdir silent w tr)))) =
     filter is_catalog tr"
  by (simp add: install_version_def resolved_catalog split: prompt_result.splits)

lemma existing_catalog:
  "filter is_catalog (snd (snd (snd (install_existing e self m silent w tr)))) =
     filter is_catalog tr"
  by (simp add: install_existing_def Let_def version_catalog split: option.splits)

lemma resolved_avail:
  "install_resolved (e\<lparr>get_avail_modules := a\<rparr>) self m v folder mdir silent w tr =
     install_resolved e self m v folder mdir silent w tr"
  by (simp add: install_resolved_def install_module_files_def)

lemma version_avail:
  "install_version (e\<lparr>get_avail_modules := a\<rparr>) self m cur folder mdir silent w tr =
     install_version e self m cur folder mdir silent w tr"
  by (simp add: install_version_def resolved_avail split: prompt_result.splits)

lemma existing_avail:
  "install_existing (e\<lparr>get_avail_modules := a\<rparr>) self m silent w tr =
     install_existing e self m silent w tr"
  by (auto simp: install_existing_def version_avail Let_def split: option.splits)

lemma writes_removals:
  "filter is_write (removals m rp us) = map (\<lambda>u. RemoveEntry m u rp) us"
  by (induction us) (auto simp: removals_def)

lemma writes_purge_events:
  "filter is_write (purge_events self m mdir mj) =
     (if force self
      then ClearModuleDir m mdir
           # map (\<lambda>u. RemoveEntry m u (repo_path (modules_repo self)))
               (hits m (repo_path (modules_repo self)) mj)
      else [])"
  by (simp add: purge_events_def writes_removals)

lemma gmv_purged_manifest:
  "get_module_version (purged_manifest self m mj) n r p =
     (if force self \<and> n = m \<and> p = repo_path (modules_repo self) then None
      else get_module_version mj n r p)"
  by (simp add: purged_manifest_def gmv_purged)

lemma wf_purged_manifest: "wf_modules_json mj \<Longrightarrow> wf_modules_json (purged_manifest self m mj)"
  by (simp add: purged_manifest_def wf_remove_all)

lemma mu_subset_write: "is_materialize_or_update x \<Longrightarrow> is_write x"
  by (cases x) auto

lemma mu_no_write: "filter is_write tr = [] \<Longrightarrow> filter is_materialize_or_update tr = []"
  by (auto simp: filter_empty_conv dest: mu_subset_write)

lemma mu_purge_events: "filter is_materialize_or_update (purge_events self m mdir mj) = []"
  by (simp add: purge_events_def filter_removals_none)

lemma update_purge_events: "filter is_update (purge_events self m mdir mj) = []"
  by (simp add: purge_events_def filter_removals_none)

lemma materialize_purge_events: "filter is_materialize (purge_events self m mdir mj) = []"
  by (simp add: purge_events_def filter_removals_none)

lemma confirm_purge_events: "filter is_confirm (purge_events self m mdir mj) = []"
  by (simp add: purge_events_def filter_removals_none)

lemma materialize_no_write: "filter is_write tr = [] \<Longrightarrow> filter is_materialize tr = []"
  by (auto simp: filter_empty_conv elim!: is_materialize.elims)

lemma confirm_among:
  assumes "ConfirmForce m a \<in> set tr" and "filter is_confirm tr = cs"
  shows "ConfirmForce m a \<in> set cs"
proof -
  have "ConfirmForce m a \<in> set (filter is_confirm tr)"
    using assms(1) by simp
  then show ?thesis by (simp add: assms(2))
qed

lemma force_stays:
  assumes run: "install e self module silent w = (res, self', w', tr)"
    and f: "force self"
  shows "self' = self \<and> filter is_confirm tr = []
         \<and> (\<forall>m v f ok. InstallModuleFiles m v f ok \<in> set tr \<longrightarrow>
               filter is_write tr =
                 ClearModuleDir m (module_dir_of self m)
                 # map (\<lambda>u. RemoveEntry m u (repo_path (modules_repo self)))
                     (hits m (repo_path (modules_repo self))
                        (check_up_to_date e (fs w) (manifest w)))
                 @ [InstallModuleFiles m v f ok] @ (if ok then [Update m v] else []))"
proof -
  let ?w1 = "w\<lparr>manifest := check_up_to_date e (fs w) (manifest w)\<rparr>"
  let ?Q = "\<lambda>R. case R of (res, self', w', tr) \<Rightarrow>
         self' = self \<and> filter is_confirm tr = []
         \<and> (\<forall>m v f ok. InstallModuleFiles m v f ok \<in> set tr \<longrightarrow>
               filter is_write tr =
                 ClearModuleDir m (module_dir_of self m)
                 # map (\<lambda>u. RemoveEntry m u (repo_path (modules_repo self)))
                     (hits m (repo_path (modules_repo self))
                        (check_up_to_date e (fs w) (manifest w)))
                 @ [InstallModuleFiles m v f ok] @ (if ok then [Update m v] else []))"
  have "?Q (install e self module silent w)"
  proof (rule install_rule)
    fix res tr' self1 w'
    assume nw: "filter is_write tr' = []"
      and "self1 = self \<and> filter is_confirm tr' = []
          \<or> \<not> force self
            \<and> (\<exists>m. already_installed self m ?w1
                   \<and> filter is_confirm tr' = [ConfirmForce m (confirm_force e m)]
                   \<and> self1 = (if confirm_force e m = Some True
                              then self\<lparr>force := True\<rparr> else self))"
    with f have s: "self1 = self" "filter is_confirm tr' = []" by simp_all
    have "\<not> InstallModuleFiles m v g ok \<in> set tr'" for m v g ok
      using not_write_in_trace [OF nw, of "InstallModuleFiles m v g ok"] by auto
    with s show "?Q (res, self1, w', tr')" by simp
  next
    fix m v tr0 self1
    assume nw: "filter is_write tr0 = []"
      and "self1 = self \<and> filter is_confirm tr0 = []
           \<and> (force self \<or> \<not> already_installed self m ?w1)
         \<or> \<not> force self \<and> already_installed self m ?w1
           \<and> confirm_force e m = Some True
           \<and> filter is_confirm tr0 = [ConfirmForce m (Some True)]
           \<and> self1 = self\<lparr>force := True\<rparr>"
    with f have s: "self1 = self" "filter is_confirm tr0 = []" by simp_all
    have none: "\<not> InstallModuleFiles m' v' g ok \<in> set tr0" for m' v' g ok
      using not_write_in_trace [OF nw, of "InstallModuleFiles m' v' g ok"] by auto
    show "?Q (install_resolved e self1 m v (install_folder_of self) (module_dir_of self m)
                silent ?w1 tr0)"
      unfolding s(1)
      by (simp add: install_resolved_eq Let_def confirm_purge_events writes_purge_events
                    in_purge_events nw s(2) f none)
  qed
  with run show ?thesis by simp
qed

lemmas install_defs = install_def install_named_def install_existing_def install_version_def
  install_resolved_eq purged_fs_def purged_manifest_def purge_events_def
  install_module_files_def install_folder_of_def module_dir_of_def os_path_join_def join_step_def
  truthy_def path_exists_def get_module_version_def update_def remove_all_def
  hits_def removals_def remove_entry_def Let_def

lemmas ex_defs = ex_repo_def ex_self_def ex_env_def ex_world_def

section \<open>The claims\<close>

subsection \<open>C1: what a forced install purges\<close>




subsection \<open>C2: a failed materialization\<close>

text \<open>
  C2: when the materialization of module \<open>m\<close> fails, the install returns failure, the
  manifest afterwards has no entry for \<open>m\<close> under the target remote and repository path,
  and nothing was recorded; and whenever something is recorded, the materialization of the
  same module at the same revision came before it and succeeded. The manifest that the
  install works on is the one that \<^verbatim>\<open>check_up_to_date\<close> returns: by Invariant M1
  of the specification it records \<open>m\<close> only if the module directory is there, which is the
  premise on it below.
\<close>

theorem failed_materialization_leaves_no_entry:
  assumes run: "install e self module silent w = (res, self', w', tr)"
  shows "(InstallModuleFiles m v f False \<in> set tr
          \<and> (get_module_version (check_up_to_date e (fs w) (manifest w)) m
                (remote_url (modules_repo self)) (repo_path (modules_repo self)) \<noteq> None
              \<longrightarrow> path_exists (fs w) (module_dir_of self m))
          \<longrightarrow> res = Returned False
              \<and> get_module_version (manifest w') m (remote_url (modules_repo self))
                    (repo_path (modules_repo self)) = None
              \<and> filter is_update tr = []
              \<and> (\<exists>part. fetch_module_files e v m = FetchFailed part))
         \<and> (\<forall>m' v'. Update m' v' \<in> set tr \<longrightarrow>
               res = Returned True
               \<and> (\<exists>fl. fetch_module_files e v' m' = Fetched fl)
               \<and> filter is_materialize_or_update tr =
                   [InstallModuleFiles m' v' (install_folder_of self) True, Update m' v'])"
proof -
  let ?mj = "check_up_to_date e (fs w) (manifest w)"
  let ?w1 = "w\<lparr>manifest := ?mj\<rparr>"
  let ?url = "remote_url (modules_repo self)"
  let ?rp = "repo_path (modules_repo self)"
  let ?P = "\<lambda>R. case R of (res, self', w', tr) \<Rightarrow>
         (\<forall>m v f. InstallModuleFiles m v f False \<in> set tr
          \<and> (get_module_version ?mj m ?url ?rp \<noteq> None \<longrightarrow> path_exists (fs w) (module_dir_of self m))
          \<longrightarrow> res = Returned False
              \<and> get_module_version (manifest w') m ?url ?rp = None
              \<and> filter is_update tr = []
              \<and> (\<exists>part. fetch_module_files e v m = FetchFailed part))
         \<and> (\<forall>m' v'. Update m' v' \<in> set tr \<longrightarrow>
               res = Returned True
               \<and> (\<exists>fl. fetch_module_files e v' m' = Fetched fl)
               \<and> filter is_materialize_or_update tr =
                   [InstallModuleFiles m' v' (install_folder_of self) True, Update m' v'])"
  have "?P (install e self module silent w)"
  proof (rule install_rule)
    fix res tr' self1 w'
    assume "res \<noteq> Returned True" "filter is_write tr' = []"
    then show "?P (res, self1, w', tr')"
      by (auto dest: not_write_in_trace)
  next
    fix m v tr0 self1
    assume nw: "filter is_write tr0 = []"
      and self1: "self1 = self \<and> filter is_confirm tr0 = []
             \<and> (force self \<or> \<not> already_installed self m ?w1)
           \<or> \<not> force self \<and> already_installed self m ?w1
             \<and> confirm_force e m = Some True
             \<and> filter is_confirm tr0 = [ConfirmForce m (Some True)]
             \<and> self1 = self\<lparr>force := True\<rparr>"
    from self1 have repo: "modules_repo self1 = modules_repo self" by auto
    from self1 have nf: "\<not> force self1 \<Longrightarrow> \<not> already_installed self m ?w1" by auto
    have nu: "filter is_update tr0 = []"
      using nw by (auto simp: filter_empty_conv elim!: is_update.elims)
    have gone: "get_module_version (purged_manifest self1 m ?mj) m ?url ?rp = None"
      if "get_module_version ?mj m ?url ?rp \<noteq> None \<longrightarrow> path_exists (fs w) (module_dir_of self m)"
      using that nf repo by (auto simp: gmv_purged_manifest already_installed_def)
    show "?P (install_resolved e self1 m v (install_folder_of self) (module_dir_of self m) silent
                ?w1 tr0)"
      using nw nu repo gone mu_no_write [OF nw]
      by (auto simp: install_resolved_eq Let_def in_purge_events mu_purge_events
                     install_module_files_def update_purge_events
               dest: not_write_in_trace split: fetch_result.splits)
  qed
  with run show ?thesis by auto
qed

theorem failed_materialization_leaves_no_entry_witness:
  "install (ex_env\<lparr>fetch_module_files := (\<lambda>v m. FetchFailed Map.empty)\<rparr>)
     (ex_self\<lparr>force := True\<rparr>) (Some ''foo'') True ex_installed =
     (Returned False, ex_self\<lparr>force := True\<rparr>,
      \<lparr>fs = [''pipe/modules/nf-core/modules/foo'' \<mapsto> Map.empty],
       manifest = [(''git/nf-core'', [(''nf-core/modules'', [])])]\<rparr>,
      [HasValidDirectory True, CheckModulesStructure, CheckUpToDate,
       GetAvailModules, ModuleExists ''foo'' True,
       GetModuleVersion ''foo'' ''git/nf-core'' ''nf-core/modules'' (Some ''abc123''),
       PathExists ''pipe/modules/nf-core/modules/foo'' True,
       GetLatestModuleVersion ''foo'' ''abc123'',
       Log Info (RemovingInstalled ''nf-core/modules'' ''foo''),
       ClearModuleDir ''foo'' ''pipe/modules/nf-core/modules/foo'',
       Log Info (RemovingFromModulesJson ''nf-core/modules'' ''foo'' ''git/nf-core''),
       RemoveEntry ''foo'' ''git/nf-core'' ''nf-core/modules'',
       Log Info (Installing True ''foo''),
       Log Debug (InstallingAt ''foo'' ''abc123'' ''git/nf-core''),
       InstallModuleFiles ''foo'' ''abc123'' ''pipe/modules/nf-core/modules'' False])
   \<and> path_exists (fs ex_installed) (module_dir_of (ex_self\<lparr>force := True\<rparr>) ''foo'')
   \<and> get_module_version [(''git/nf-core'', [(''nf-core/modules'', [])])] ''foo''
        ''git/nf-core'' ''nf-core/modules'' = None
   \<and> install ex_env ex_self (Some ''foo'') True ex_world =
     (Returned True, ex_self, ex_installed,
      [HasValidDirectory True, CheckModulesStructure, CheckUpToDate,
       GetAvailModules, ModuleExists ''foo'' True,
       GetModuleVersion ''foo'' ''git/nf-core'' ''nf-core/modules'' None,
       GetLatestModuleVersion ''foo'' ''abc123'',
       Log Info (Installing False ''foo''),
       Log Debug (InstallingAt ''foo'' ''abc123'' ''git/nf-core''),
       InstallModuleFiles ''foo'' ''abc123'' ''pipe/modules/nf-core/modules'' True,
       Load, Update ''foo'' ''abc123''])
   \<and> (\<exists>fl. fetch_module_files ex_env ''abc123'' ''foo'' = Fetched fl)"
proof -
  let ?tr1 = "[HasValidDirectory True, CheckModulesStructure, CheckUpToDate,
       GetAvailModules, ModuleExists ''foo'' True,
       GetModuleVersion ''foo'' ''git/nf-core'' ''nf-core/modules'' None,
       GetLatestModuleVersion ''foo'' ''abc123'',
       Log Info (Installing False ''foo''),
       Log Debug (InstallingAt ''foo'' ''abc123'' ''git/nf-core''),
       InstallModuleFiles ''foo'' ''abc123'' ''pipe/modules/nf-core/modules'' True,
       Load, Update ''foo'' ''abc123'']"
  have good: "install ex_env ex_self (Some ''foo'') True ex_world =
                (Returned True, ex_self, ex_installed, ?tr1)"
    by (simp add: install_defs ex_defs ex_installed_def)
  have recorded: "Update ''foo'' ''abc123'' \<in> set ?tr1"
    by simp
  from failed_materialization_leaves_no_entry [OF good] recorded
  have fetched: "\<exists>fl. fetch_module_files ex_env ''abc123'' ''foo'' = Fetched fl"
    by blast
  let ?e = "ex_env\<lparr>fetch_module_files := (\<lambda>v m. FetchFailed Map.empty)\<rparr>"
  let ?s = "ex_self\<lparr>force := True\<rparr>"
  let ?w' = "\<lparr>fs = [''pipe/modules/nf-core/modules/foo'' \<mapsto> Map.empty],
             manifest = [(''git/nf-core'', [(''nf-core/modules'', [])])]\<rparr>"
  let ?tr = "[HasValidDirectory True, CheckModulesStructure, CheckUpToDate,
       GetAvailModules, ModuleExists ''foo'' True,
       GetModuleVersion ''foo'' ''git/nf-core'' ''nf-core/modules'' (Some ''abc123''),
       PathExists ''pipe/modules/nf-core/modules/foo'' True,
       GetLatestModuleVersion ''foo'' ''abc123'',
       Log Info (RemovingInstalled ''nf-core/modules'' ''foo''),
       ClearModuleDir ''foo'' ''pipe/modules/nf-core/modules/foo'',
       Log Info (RemovingFromModulesJson ''nf-core/modules'' ''foo'' ''git/nf-core''),
       RemoveEntry ''foo'' ''git/nf-core'' ''nf-core/modules'',
       Log Info (Installing True ''foo''),
       Log Debug (InstallingAt ''foo'' ''abc123'' ''git/nf-core''),
       InstallModuleFiles ''foo'' ''abc123'' ''pipe/modules/nf-core/modules'' False]"
  have run: "install ?e ?s (Some ''foo'') True ex_installed = (Returned False, ?s, ?w', ?tr)"
    by (simp add: install_defs ex_defs ex_installed_def)
  have failed: "InstallModuleFiles ''foo'' ''abc123'' ''pipe/modules/nf-core/modules'' False \<in> set ?tr"
    by simp
  have there: "path_exists (fs ex_installed) (module_dir_of ?s ''foo'')"
    by (simp add: install_defs ex_defs ex_installed_def)
  from failed_materialization_leaves_no_entry
         [OF run, of "''foo''" "''abc123''" "''pipe/modules/nf-core/modules''"] failed there
  have "get_module_version (manifest ?w') ''foo'' (remote_url (modules_repo ?s))
          (repo_path (modules_repo ?s)) = None"
    by blast
  with run there good fetched show ?thesis by (simp add: ex_defs)
qed

subsection \<open>C3: a pinned revision together with the interactive mode\<close>




subsection \<open>C4: a name that is not in the catalog\<close>




subsection \<open>C5: a forced reinstall replaces the entry\<close>

text \<open>
  C5: after module \<open>m\<close> was installed from a remote and is installed again with force set,
  both installs succeeding, the manifest has exactly one entry for the remote, the
  repository path and \<open>m\<close>, and its revision is the one the second install resolved and
  materialized: the pinned one, or else the latest one unless the prompt chose it. The
  manifest is a dictionary at each level, which is the premise on what the consistency
  check returns.
\<close>

theorem force_reinstall_single_entry:
  assumes first: "install e1 self1 (Some m) silent1 w0 = (Returned True, self1', w1, tr1)"
    and second: "install e2 self2 (Some m) silent2 w1 = (Returned True, self2', w2, tr2)"
    and force: "force self2"
    and wf: "wf_modules_json (check_up_to_date e2 (fs w1) (manifest w1))"
  shows "\<exists>v. filter is_materialize tr2 = [InstallModuleFiles m v (install_folder_of self2) True]
           \<and> filter (entry_of (remote_url (modules_repo self2)) (repo_path (modules_repo self2)) m)
                (entries (manifest w2)) =
               [(remote_url (modules_repo self2), repo_path (modules_repo self2), m, v)]
           \<and> (truthy (sha self2) \<longrightarrow> v = the (sha self2))
           \<and> (\<not> truthy (sha self2) \<and> \<not> prompt self2 \<longrightarrow> v = get_latest_module_version e2 m)"
proof -
  let ?mj = "check_up_to_date e2 (fs w1) (manifest w1)"
  let ?w = "w1\<lparr>manifest := ?mj\<rparr>"
  let ?url = "remote_url (modules_repo self2)"
  let ?rp = "repo_path (modules_repo self2)"
  let ?P = "\<lambda>R. case R of (res, self', w', tr) \<Rightarrow>
         res = Returned True \<longrightarrow>
         (\<exists>v. filter is_materialize tr = [InstallModuleFiles m v (install_folder_of self2) True]
           \<and> filter (entry_of ?url ?rp m) (entries (manifest w')) = [(?url, ?rp, m, v)]
           \<and> (truthy (sha self2) \<longrightarrow> v = the (sha self2))
           \<and> (\<not> truthy (sha self2) \<and> \<not> prompt self2 \<longrightarrow> v = get_latest_module_version e2 m))"
  have "?P (install e2 self2 (Some m) silent2 w1)"
  proof (rule install_rule)
    fix res tr' self1 w'
    assume "res \<noteq> Returned True"
    then show "?P (res, self1, w', tr')" by simp
  next
    fix m' v tr0 self1
    assume nw: "filter is_write tr0 = []"
      and self1: "self1 = self2 \<and> filter is_confirm tr0 = []
             \<and> (force self2 \<or> \<not> already_installed self2 m' ?w)
           \<or> \<not> force self2 \<and> already_installed self2 m' ?w
             \<and> confirm_force e2 m' = Some True
             \<and> filter is_confirm tr0 = [ConfirmForce m' (Some True)]
             \<and> self1 = self2\<lparr>force := True\<rparr>"
      and v1: "truthy (sha self2) \<longrightarrow> v = the (sha self2)"
      and v2: "\<not> truthy (sha self2) \<and> \<not> prompt self2 \<longrightarrow> v = get_latest_module_version e2 m'"
      and name: "Some m = Some m' \<or> Some m = None \<and> ask_module e2 (get_avail_modules e2) = Some m'"
    from name have m: "m' = m" by simp
    from self1 force have s: "self1 = self2" by auto
    have wf': "wf_modules_json (update (purged_manifest self2 m ?mj) (modules_repo self2) m v)"
      by (intro wf_update wf_purged_manifest wf)
    have entry: "filter (entry_of ?url ?rp m)
                   (entries (update (purged_manifest self2 m ?mj) (modules_repo self2) m v)) =
                 [(?url, ?rp, m, v)]"
      by (simp add: entries_lookup [OF wf'] gmv_update)
    show "?P (install_resolved e2 self1 m' v (install_folder_of self2) (module_dir_of self2 m')
                silent2 ?w tr0)"
      using v1 v2 entry materialize_no_write [OF nw]
      by (simp add: install_resolved_eq Let_def m s materialize_purge_events)
  qed
  with second show ?thesis by simp
qed

theorem force_reinstall_single_entry_witness:
  "install ex_env ex_self (Some ''foo'') True ex_world =
     (Returned True, ex_self, ex_installed,
      [HasValidDirectory True, CheckModulesStructure, CheckUpToDate,
       GetAvailModules, ModuleExists ''foo'' True,
       GetModuleVersion ''foo'' ''git/nf-core'' ''nf-core/modules'' None,
       GetLatestModuleVersion ''foo'' ''abc123'',
       Log Info (Installing False ''foo''),
       Log Debug (InstallingAt ''foo'' ''abc123'' ''git/nf-core''),
       InstallModuleFiles ''foo'' ''abc123'' ''pipe/modules/nf-core/modules'' True,
       Load, Update ''foo'' ''abc123''])
   \<and> install (ex_env\<lparr>get_latest_module_version := (\<lambda>m. ''def456'')\<rparr>) (ex_self\<lparr>force := True\<rparr>)
       (Some ''foo'') True ex_installed =
     (Returned True, ex_self\<lparr>force := True\<rparr>,
      \<lparr>fs = [''pipe/modules/nf-core/modules/foo'' \<mapsto> [''main.nf'' \<mapsto> ''def456'']],
       manifest = [(''git/nf-core'', [(''nf-core/modules'', [(''foo'', ''def456'')])])]\<rparr>,
      [HasValidDirectory True, CheckModulesStructure, CheckUpToDate,
       GetAvailModules, ModuleExists ''foo'' True,
       GetModuleVersion ''foo'' ''git/nf-core'' ''nf-core/modules'' (Some ''abc123''),
       PathExists ''pipe/modules/nf-core/modules/foo'' True,
       GetLatestModuleVersion ''foo'' ''def456'',
       Log Info (RemovingInstalled ''nf-core/modules'' ''foo''),
       ClearModuleDir ''foo'' ''pipe/modules/nf-core/modules/foo'',
       Log Info (RemovingFromModulesJson ''nf-core/modules'' ''foo'' ''git/nf-core''),
       RemoveEntry ''foo'' ''git/nf-core'' ''nf-core/modules'',
       Log Info (Installing True ''foo''),
       Log Debug (InstallingAt ''foo'' ''def456'' ''git/nf-core''),
       InstallModuleFiles ''foo'' ''def456'' ''pipe/modules/nf-core/modules'' True,
       Load, Update ''foo'' ''def456''])
   \<and> wf_modules_json (manifest ex_installed)
   \<and> filter (entry_of ''git/nf-core'' ''nf-core/modules'' ''foo'')
        (entries [(''git/nf-core'', [(''nf-core/modules'', [(''foo'', ''def456'')])])]) =
      [(''git/nf-core'', ''nf-core/modules'', ''foo'', ''def456'')]"
proof -
  let ?e2 = "ex_env\<lparr>get_latest_module_version := (\<lambda>m. ''def456'')\<rparr>"
  let ?s2 = "ex_self\<lparr>force := True\<rparr>"
  let ?tr1 = "[HasValidDirectory True, CheckModulesStructure, CheckUpToDate,
       GetAvailModules, ModuleExists ''foo'' True,
       GetModuleVersion ''foo'' ''git/nf-core'' ''nf-core/modules'' None,
       GetLatestModuleVersion ''foo'' ''abc123'',
       Log Info (Installing False ''foo''),
       Log Debug (InstallingAt ''foo'' ''abc123'' ''git/nf-core''),
       InstallModuleFiles ''foo'' ''abc123'' ''pipe/modules/nf-core/modules'' True,
       Load, Update ''foo'' ''abc123'']"
  let ?w2 = "\<lparr>fs = [''pipe/modules/nf-core/modules/foo'' \<mapsto> [''main.nf'' \<mapsto> ''def456'']],
       manifest = [(''git/nf-core'', [(''nf-core/modules'', [(''foo'', ''def456'')])])]\<rparr>"
  let ?tr2 = "[HasValidDirectory True, CheckModulesStructure, CheckUpToDate,
       GetAvailModules, ModuleExists ''foo'' True,
       GetModuleVersion ''foo'' ''git/nf-core'' ''nf-core/modules'' (Some ''abc123''),
       PathExists ''pipe/modules/nf-core/modules/foo'' True,
       GetLatestModuleVersion ''foo'' ''def456'',
       Log Info (RemovingInstalled ''nf-core/modules'' ''foo''),
       ClearModuleDir ''foo'' ''pipe/modules/nf-core/modules/foo'',
       Log Info (RemovingFromModulesJson ''nf-core/modules'' ''foo'' ''git/nf-core''),
       RemoveEntry ''foo'' ''git/nf-core'' ''nf-core/modules'',
       Log Info (Installing True ''foo''),
       Log Debug (InstallingAt ''foo'' ''def456'' ''git/nf-core''),
       InstallModuleFiles ''foo'' ''def456'' ''pipe/modules/nf-core/modules'' True,
       Load, Update ''foo'' ''def456'']"
  have first: "install ex_env ex_self (Some ''foo'') True ex_world =
                 (Returned True, ex_self, ex_installed, ?tr1)"
    by (simp add: install_defs ex_defs ex_installed_def)
  have second: "install ?e2 ?s2 (Some ''foo'') True ex_installed = (Returned True, ?s2, ?w2, ?tr2)"
    by (simp add: install_defs ex_defs ex_installed_def)
  have f: "force ?s2" by simp
  have wf0: "wf_modules_json (manifest ex_installed)"
    by (simp add: wf_modules_json_def ex_installed_def)
  then have wf: "wf_modules_json (check_up_to_date ?e2 (fs ex_installed) (manifest ex_installed))"
    by (simp add: ex_defs)
  from force_reinstall_single_entry [OF first second f wf]
  obtain v where v: "filter is_materialize ?tr2 =
                       [InstallModuleFiles ''foo'' v (install_folder_of ?s2) True]"
    and one: "filter (entry_of (remote_url (modules_repo ?s2)) (repo_path (modules_repo ?s2)) ''foo'')
                (entries (manifest ?w2)) =
              [(remote_url (modules_repo ?s2), repo_path (modules_repo ?s2), ''foo'', v)]"
    by blast
  from v have "v = ''def456''" by simp
  with one have "filter (entry_of ''git/nf-core'' ''nf-core/modules'' ''foo'')
        (entries [(''git/nf-core'', [(''nf-core/modules'', [(''foo'', ''def456'')])])]) =
      [(''git/nf-core'', ''nf-core/modules'', ''foo'', ''def456'')]"
    by (simp add: ex_defs)
  with first second wf0 show ?thesis by simp
qed

subsection \<open>C6: the latest revision by default\<close>

text \<open>
  C6: for an install of module \<open>m\<close> (\<^verbatim>\<open>foo\<close> in the specification) without force,
  without a pinned revision and without the interactive mode, in a valid pipeline, with
  \<open>m\<close> in the catalog and on the branch and no module directory yet, when the remote
  reports \<open>v\<close> (\<^verbatim>\<open>abc123\<close>) as the latest revision of \<open>m\<close> and delivers the
  files \<open>fl\<close> for it, the install succeeds, the manifest records \<open>v\<close> for \<open>m\<close>, the
  module directory holds exactly \<open>fl\<close>, and no other directory changes.
\<close>

theorem latest_version_default:
  assumes "repo_type self \<noteq> ''modules''" and "has_valid_directory e"
    and "\<not> force self" and "sha self = None" and "\<not> prompt self"
    and "m \<in> set (get_avail_modules e)" and "module_exists e m"
    and "\<not> path_exists (fs w) (module_dir_of self m)"
    and "get_latest_module_version e m = v"
    and "fetch_module_files e v m = Fetched fl"
  shows "\<exists>w' tr. install e self (Some m) silent w = (Returned True, self, w', tr)
           \<and> get_module_version (manifest w') m (remote_url (modules_repo self))
                (repo_path (modules_repo self)) = Some v
           \<and> fs w' (module_dir_of self m) = Some fl
           \<and> (\<forall>p. p \<noteq> module_dir_of self m \<longrightarrow> fs w' p = fs w p)"
proof -
  have mdir: "os_path_join (install_folder_of self) [m] = module_dir_of self m"
    by (simp add: module_dir_of_def)
  have absent: "fs w (module_dir_of self m) = None"
    using assms(8) by (simp add: path_exists_def)
  show ?thesis
    using assms absent
    by (auto simp: install_def install_named_def install_existing_def install_version_def
                   install_resolved_eq purged_fs_def purged_manifest_def purge_events_def
                   install_module_files_def mdir truthy_def Let_def gmv_update)
qed

theorem latest_version_default_witness:
  "repo_type ex_self \<noteq> ''modules'' \<and> has_valid_directory ex_env
   \<and> \<not> force ex_self \<and> sha ex_self = None \<and> \<not> prompt ex_self
   \<and> ''foo'' \<in> set (get_avail_modules ex_env) \<and> module_exists ex_env ''foo''
   \<and> \<not> path_exists (fs ex_world) (module_dir_of ex_self ''foo'')
   \<and> get_latest_module_version ex_env ''foo'' = ''abc123''
   \<and> fetch_module_files ex_env ''abc123'' ''foo'' = Fetched [''main.nf'' \<mapsto> ''abc123'']
   \<and> module_dir_of ex_self ''foo'' = ''pipe/modules/nf-core/modules/foo''
   \<and> (\<exists>w' tr. install ex_env ex_self (Some ''foo'') False ex_world = (Returned True, ex_self, w', tr)
          \<and> get_module_version (manifest w') ''foo'' ''git/nf-core'' ''nf-core/modules'' = Some ''abc123''
          \<and> fs w' ''pipe/modules/nf-core/modules/foo'' = Some [''main.nf'' \<mapsto> ''abc123''])"
proof -
  have h: "repo_type ex_self \<noteq> ''modules''" "has_valid_directory ex_env"
    "\<not> force ex_self" "sha ex_self = None" "\<not> prompt ex_self"
    "''foo'' \<in> set (get_avail_modules ex_env)" "module_exists ex_env ''foo''"
    "\<not> path_exists (fs ex_world) (module_dir_of ex_self ''foo'')"
    "get_latest_module_version ex_env ''foo'' = ''abc123''"
    "fetch_module_files ex_env ''abc123'' ''foo'' = Fetched [''main.nf'' \<mapsto> ''abc123'']"
    by (simp_all add: ex_defs path_exists_def)
  have d: "module_dir_of ex_self ''foo'' = ''pipe/modules/nf-core/modules/foo''"
    by (simp add: ex_defs module_dir_of_def install_folder_of_def os_path_join_def join_step_def)
  have r: "remote_url (modules_repo ex_self) = ''git/nf-core''"
    "repo_path (modules_repo ex_self) = ''nf-core/modules''"
    by (simp_all add: ex_defs)
  from latest_version_default [OF h, of False]
  have "\<exists>w' tr. install ex_env ex_self (Some ''foo'') False ex_world = (Returned True, ex_self, w', tr)
          \<and> get_module_version (manifest w') ''foo'' ''git/nf-core'' ''nf-core/modules'' = Some ''abc123''
          \<and> fs w' ''pipe/modules/nf-core/modules/foo'' = Some [''main.nf'' \<mapsto> ''abc123'']"
    unfolding d r by blast
  with h d show ?thesis by blast
qed

subsection \<open>C7: the module is already installed\<close>

text \<open>
  C7: for a module \<open>m\<close> that the manifest records with revision \<open>r1\<close> (before the install
  and as the consistency check leaves it) and whose directory is present, an install of
  \<open>m\<close> without force, with the collaborator declining the forced reinstallation, returns
  failure, writes nothing, and leaves the object, the module tree and the manifest entry of
  \<open>m\<close> unchanged.
\<close>

theorem already_installed_short_circuit:
  assumes "\<not> force self" and "confirm_force e m = Some False"
    and "get_module_version (manifest w) m (remote_url (modules_repo self))
           (repo_path (modules_repo self)) = Some r1"
    and "get_module_version (check_up_to_date e (fs w) (manifest w)) m
           (remote_url (modules_repo self)) (repo_path (modules_repo self)) = Some r1"
    and "path_exists (fs w) (module_dir_of self m)"
  shows "\<exists>w' tr. install e self (Some m) silent w = (Returned False, self, w', tr)
           \<and> fs w' = fs w
           \<and> get_module_version (manifest w') m (remote_url (modules_repo self))
                (repo_path (modules_repo self)) = Some r1
           \<and> filter is_write tr = []"
  using assms
  by (auto simp: install_def install_named_def install_existing_def Let_def force_False_id)

theorem already_installed_short_circuit_witness:
  "\<not> force ex_self \<and> confirm_force ex_env ''foo'' = Some False
   \<and> get_module_version (manifest ex_installed) ''foo'' ''git/nf-core'' ''nf-core/modules'' = Some ''abc123''
   \<and> path_exists (fs ex_installed) (module_dir_of ex_self ''foo'')
   \<and> install ex_env ex_self (Some ''foo'') False ex_installed =
       (Returned False, ex_self, ex_installed,
        [HasValidDirectory True, CheckModulesStructure, CheckUpToDate,
         GetAvailModules, ModuleExists ''foo'' True,
         GetModuleVersion ''foo'' ''git/nf-core'' ''nf-core/modules'' (Some ''abc123''),
         PathExists ''pipe/modules/nf-core/modules/foo'' True,
         Log Info AlreadyInstalled, ConfirmForce ''foo'' (Some False),
         Log Info (UpdateHint ''foo'' [] [])])
   \<and> (\<exists>w' tr. install ex_env ex_self (Some ''foo'') False ex_installed = (Returned False, ex_self, w', tr)
          \<and> fs w' = fs ex_installed
          \<and> get_module_version (manifest w') ''foo'' ''git/nf-core'' ''nf-core/modules'' = Some ''abc123''
          \<and> filter is_write tr = [])"
proof -
  have r: "remote_url (modules_repo ex_self) = ''git/nf-core''"
    "repo_path (modules_repo ex_self) = ''nf-core/modules''"
    by (simp_all add: ex_defs)
  have h: "\<not> force ex_self" "confirm_force ex_env ''foo'' = Some False"
    "get_module_version (manifest ex_installed) ''foo'' (remote_url (modules_repo ex_self))
       (repo_path (modules_repo ex_self)) = Some ''abc123''"
    "get_module_version (check_up_to_date ex_env (fs ex_installed) (manifest ex_installed)) ''foo''
       (remote_url (modules_repo ex_self)) (repo_path (modules_repo ex_self)) = Some ''abc123''"
    "path_exists (fs ex_installed) (module_dir_of ex_self ''foo'')"
    by (simp_all add: install_defs ex_defs ex_installed_def)
  have run: "install ex_env ex_self (Some ''foo'') False ex_installed =
       (Returned False, ex_self, ex_installed,
        [HasValidDirectory True, CheckModulesStructure, CheckUpToDate,
         GetAvailModules, ModuleExists ''foo'' True,
         GetModuleVersion ''foo'' ''git/nf-core'' ''nf-core/modules'' (Some ''abc123''),
         PathExists ''pipe/modules/nf-core/modules/foo'' True,
         Log Info AlreadyInstalled, ConfirmForce ''foo'' (Some False),
         Log Info (UpdateHint ''foo'' [] [])])"
    by (simp add: install_defs ex_defs ex_installed_def)
  from already_installed_short_circuit [OF h, of False]
  have "\<exists>w' tr. install ex_env ex_self (Some ''foo'') False ex_installed = (Returned False, ex_self, w', tr)
          \<and> fs w' = fs ex_installed
          \<and> get_module_version (manifest w') ''foo'' ''git/nf-core'' ''nf-core/modules'' = Some ''abc123''
          \<and> filter is_write tr = []"
    unfolding r by blast
  with h(1,2,3,5) run show ?thesis unfolding r by blast
qed

subsection \<open>C8: a pinned revision\<close>




subsection \<open>C9: the confirmation sets the force flag of the object\<close>

text \<open>
  C9: when the collaborator confirms the forced reinstallation of \<open>m\<close> (which it is asked
  only if \<open>m\<close> is already installed and force is not set), the install leaves the object
  with the force flag set, and every later install on that object, whatever its arguments,
  keeps the flag, asks for no confirmation, and purges before it materializes: its writes
  are the purge of the module directory, the removals from the manifest, the
  materialization and, if that succeeded, the record.
\<close>

theorem confirmed_force_persists:
  assumes run: "install e self module silent w = (res, self', w', tr)"
    and yes: "ConfirmForce m (Some True) \<in> set tr"
  shows "\<not> force self \<and> self' = self\<lparr>force := True\<rparr>
         \<and> already_installed self m (w\<lparr>manifest := check_up_to_date e (fs w) (manifest w)\<rparr>)
         \<and> (\<forall>e2 module2 silent2 w2 res2 self2 w2' tr2.
              install e2 self' module2 silent2 w2 = (res2, self2, w2', tr2) \<longrightarrow>
                self2 = self' \<and> filter is_confirm tr2 = []
                \<and> (\<forall>m2 v f ok. InstallModuleFiles m2 v f ok \<in> set tr2 \<longrightarrow>
                      filter is_write tr2 =
                         ClearModuleDir m2 (module_dir_of self m2)
                         # map (\<lambda>u. RemoveEntry m2 u (repo_path (modules_repo self)))
                             (hits m2 (repo_path (modules_repo self))
                                (check_up_to_date e2 (fs w2) (manifest w2)))
                         @ [InstallModuleFiles m2 v f ok] @ (if ok then [Update m2 v] else [])))"
proof -
  let ?w1 = "w\<lparr>manifest := check_up_to_date e (fs w) (manifest w)\<rparr>"
  let ?P = "\<lambda>R. case R of (res, self', w', tr) \<Rightarrow>
              ConfirmForce m (Some True) \<in> set tr \<longrightarrow>
                 \<not> force self \<and> self' = self\<lparr>force := True\<rparr> \<and> already_installed self m ?w1"
  have "?P (install e self module silent w)"
  proof (rule install_rule)
    fix res tr' self1 w'
    assume d: "self1 = self \<and> filter is_confirm tr' = []
            \<or> \<not> force self
              \<and> (\<exists>m. already_installed self m ?w1
                     \<and> filter is_confirm tr' = [ConfirmForce m (confirm_force e m)]
                     \<and> self1 = (if confirm_force e m = Some True
                                then self\<lparr>force := True\<rparr> else self))"
    show "?P (res, self1, w', tr')"
    proof (clarify)
      assume mem: "ConfirmForce m (Some True) \<in> set tr'"
      from d show "\<not> force self \<and> self1 = self\<lparr>force := True\<rparr> \<and> already_installed self m ?w1"
      proof (elim disjE conjE exE)
        assume "filter is_confirm tr' = []"
        from confirm_among [OF mem this] show ?thesis by simp
      next
        fix m' assume nf: "\<not> force self" and inst: "already_installed self m' ?w1"
          and c: "filter is_confirm tr' = [ConfirmForce m' (confirm_force e m')]"
          and s: "self1 = (if confirm_force e m' = Some True then self\<lparr>force := True\<rparr> else self)"
        from confirm_among [OF mem c] have "m' = m" "confirm_force e m' = Some True" by simp_all
        with nf inst s show ?thesis by simp
      qed
    qed
  next
    fix m' v tr0 self1
    assume d: "self1 = self \<and> filter is_confirm tr0 = []
             \<and> (force self \<or> \<not> already_installed self m' ?w1)
           \<or> \<not> force self \<and> already_installed self m' ?w1
             \<and> confirm_force e m' = Some True
             \<and> filter is_confirm tr0 = [ConfirmForce m' (Some True)]
             \<and> self1 = self\<lparr>force := True\<rparr>"
    let ?R = "install_resolved e self1 m' v (install_folder_of self) (module_dir_of self m')
                silent ?w1 tr0"
    have c: "filter is_confirm (snd (snd (snd ?R))) = filter is_confirm tr0"
      by (simp add: install_resolved_eq Let_def confirm_purge_events)
    have s: "fst (snd ?R) = self1"
      by (simp add: install_resolved_eq Let_def)
    obtain res2 self2 w2 tr2 where R: "?R = (res2, self2, w2, tr2)"
      by (cases ?R) auto
    have "\<not> force self \<and> self2 = self\<lparr>force := True\<rparr> \<and> already_installed self m ?w1"
      if mem: "ConfirmForce m (Some True) \<in> set tr2"
    proof -
      from c R have c2: "filter is_confirm tr2 = filter is_confirm tr0" by simp
      from s R have s2: "self2 = self1" by simp
      from d consider (quiet) "filter is_confirm tr0 = []"
        | (asked) "\<not> force self" "already_installed self m' ?w1"
            "filter is_confirm tr0 = [ConfirmForce m' (Some True)]" "self1 = self\<lparr>force := True\<rparr>"
        by blast
      then show ?thesis
      proof cases
        case quiet
        with c2 have "filter is_confirm tr2 = []" by simp
        from confirm_among [OF mem this] show ?thesis by simp
      next
        case asked
        from c2 asked(3) have "filter is_confirm tr2 = [ConfirmForce m' (Some True)]" by simp
        from confirm_among [OF mem this] have "m' = m" by simp
        with asked s2 show ?thesis by simp
      qed
    qed
    with R show "?P ?R" by simp
  qed
  with run yes have now: "\<not> force self" "self' = self\<lparr>force := True\<rparr>" "already_installed self m ?w1"
    by auto
  have f: "force self'" using now by simp
  have d: "module_dir_of self' m2 = module_dir_of self m2" for m2
    using now by (simp add: module_dir_of_def install_folder_of_def)
  have r: "modules_repo self' = modules_repo self" using now by simp
  have later: "self2 = self' \<and> filter is_confirm tr2 = []
                \<and> (\<forall>m2 v f ok. InstallModuleFiles m2 v f ok \<in> set tr2 \<longrightarrow>
                      filter is_write tr2 =
                         ClearModuleDir m2 (module_dir_of self m2)
                         # map (\<lambda>u. RemoveEntry m2 u (repo_path (modules_repo self)))
                             (hits m2 (repo_path (modules_repo self))
                                (check_up_to_date e2 (fs w2) (manifest w2)))
                         @ [InstallModuleFiles m2 v f ok] @ (if ok then [Update m2 v] else []))"
    if run2: "install e2 self' module2 silent2 w2 = (res2, self2, w2', tr2)"
    for e2 module2 silent2 w2 res2 self2 w2' tr2
    using force_stays [OF run2 f] by (simp add: d r)
  from now(1,2,3) later show ?thesis by blast
qed

theorem confirmed_force_persists_witness:
  "install (ex_env\<lparr>confirm_force := (\<lambda>m. Some True)\<rparr>) ex_self (Some ''foo'') True ex_installed =
     (Returned True, ex_self\<lparr>force := True\<rparr>, ex_installed,
      [HasValidDirectory True, CheckModulesStructure, CheckUpToDate,
       GetAvailModules, ModuleExists ''foo'' True,
       GetModuleVersion ''foo'' ''git/nf-core'' ''nf-core/modules'' (Some ''abc123''),
       PathExists ''pipe/modules/nf-core/modules/foo'' True,
       Log Info AlreadyInstalled, ConfirmForce ''foo'' (Some True),
       GetLatestModuleVersion ''foo'' ''abc123'',
       Log Info (RemovingInstalled ''nf-core/modules'' ''foo''),
       ClearModuleDir ''foo'' ''pipe/modules/nf-core/modules/foo'',
       Log Info (RemovingFromModulesJson ''nf-core/modules'' ''foo'' ''git/nf-core''),
       RemoveEntry ''foo'' ''git/nf-core'' ''nf-core/modules'',
       Log Info (Installing True ''foo''),
       Log Debug (InstallingAt ''foo'' ''abc123'' ''git/nf-core''),
       InstallModuleFiles ''foo'' ''abc123'' ''pipe/modules/nf-core/modules'' True,
       Load, Update ''foo'' ''abc123''])
   \<and> install ex_env (ex_self\<lparr>force := True\<rparr>) (Some ''bar'') True ex_installed =
     (Returned True, ex_self\<lparr>force := True\<rparr>,
      \<lparr>fs = [''pipe/modules/nf-core/modules/foo'' \<mapsto> [''main.nf'' \<mapsto> ''abc123''],
             ''pipe/modules/nf-core/modules/bar'' \<mapsto> [''main.nf'' \<mapsto> ''abc123'']],
       manifest = [(''git/nf-core'', [(''nf-core/modules'',
                      [(''foo'', ''abc123''), (''bar'', ''abc123'')])])]\<rparr>,
      [HasValidDirectory True, CheckModulesStructure, CheckUpToDate,
       GetAvailModules, ModuleExists ''bar'' True,
       GetModuleVersion ''bar'' ''git/nf-core'' ''nf-core/modules'' None,
       GetLatestModuleVersion ''bar'' ''abc123'',
       Log Info (RemovingInstalled ''nf-core/modules'' ''bar''),
       ClearModuleDir ''bar'' ''pipe/modules/nf-core/modules/bar'',
       Log Info (Installing True ''bar''),
       Log Debug (InstallingAt ''bar'' ''abc123'' ''git/nf-core''),
       InstallModuleFiles ''bar'' ''abc123'' ''pipe/modules/nf-core/modules'' True,
       Load, Update ''bar'' ''abc123''])
   \<and> filter is_confirm
        [HasValidDirectory True, CheckModulesStructure, CheckUpToDate,
         GetAvailModules, ModuleExists ''bar'' True,
         GetModuleVersion ''bar'' ''git/nf-core'' ''nf-core/modules'' None,
         GetLatestModuleVersion ''bar'' ''abc123'',
         Log Info (RemovingInstalled ''nf-core/modules'' ''bar''),
         ClearModuleDir ''bar'' ''pipe/modules/nf-core/modules/bar'',
         Log Info (Installing True ''bar''),
         Log Debug (InstallingAt ''bar'' ''abc123'' ''git/nf-core''),
         InstallModuleFiles ''bar'' ''abc123'' ''pipe/modules/nf-core/modules'' True,
         Load, Update ''bar'' ''abc123''] = []"
proof -
  let ?e = "ex_env\<lparr>confirm_force := (\<lambda>m. Some True)\<rparr>"
  let ?s' = "ex_self\<lparr>force := True\<rparr>"
  let ?tr = "[HasValidDirectory True, CheckModulesStructure, CheckUpToDate,
       GetAvailModules, ModuleExists ''foo'' True,
       GetModuleVersion ''foo'' ''git/nf-core'' ''nf-core/modules'' (Some ''abc123''),
       PathExists ''pipe/modules/nf-core/modules/foo'' True,
       Log Info AlreadyInstalled, ConfirmForce ''foo'' (Some True),
       GetLatestModuleVersion ''foo'' ''abc123'',
       Log Info (RemovingInstalled ''nf-core/modules'' ''foo''),
       ClearModuleDir ''foo'' ''pipe/modules/nf-core/modules/foo'',
       Log Info (RemovingFromModulesJson ''nf-core/modules'' ''foo'' ''git/nf-core''),
       RemoveEntry ''foo'' ''git/nf-core'' ''nf-core/modules'',
       Log Info (Installing True ''foo''),
       Log Debug (InstallingAt ''foo'' ''abc123'' ''git/nf-core''),
       InstallModuleFiles ''foo'' ''abc123'' ''pipe/modules/nf-core/modules'' True,
       Load, Update ''foo'' ''abc123'']"
  let ?w2 = "\<lparr>fs = [''pipe/modules/nf-core/modules/foo'' \<mapsto> [''main.nf'' \<mapsto> ''abc123''],
             ''pipe/modules/nf-core/modules/bar'' \<mapsto> [''main.nf'' \<mapsto> ''abc123'']],
       manifest = [(''git/nf-core'', [(''nf-core/modules'',
                      [(''foo'', ''abc123''), (''bar'', ''abc123'')])])]\<rparr>"
  let ?tr2 = "[HasValidDirectory True, CheckModulesStructure, CheckUpToDate,
       GetAvailModules, ModuleExists ''bar'' True,
       GetModuleVersion ''bar'' ''git/nf-core'' ''nf-core/modules'' None,
       GetLatestModuleVersion ''bar'' ''abc123'',
       Log Info (RemovingInstalled ''nf-core/modules'' ''bar''),
       ClearModuleDir ''bar'' ''pipe/modules/nf-core/modules/bar'',
       Log Info (Installing True ''bar''),
       Log Debug (InstallingAt ''bar'' ''abc123'' ''git/nf-core''),
       InstallModuleFiles ''bar'' ''abc123'' ''pipe/modules/nf-core/modules'' True,
       Load, Update ''bar'' ''abc123'']"
  have run: "install ?e ex_self (Some ''foo'') True ex_installed =
               (Returned True, ?s', ex_installed, ?tr)"
    by (simp add: install_defs ex_defs ex_installed_def)
  have yes: "ConfirmForce ''foo'' (Some True) \<in> set ?tr"
    by simp
  have run2: "install ex_env ?s' (Some ''bar'') True ex_installed = (Returned True, ?s', ?w2, ?tr2)"
    by (simp add: install_defs ex_defs ex_installed_def fun_upd_twist)
  from confirmed_force_persists [OF run yes] run2 have "filter is_confirm ?tr2 = []"
    by blast
  with run run2 show ?thesis by simp
qed

subsection \<open>C10: the empty module name\<close>

text \<open>
  C10: for the empty module name the catalog is not consulted: the check of lines 64 to 75
  goes straight to \<^verbatim>\<open>module_exists\<close>, whose answer alone decides whether the
  install fails there (with the warning of line 74) or goes on to line 77; the whole
  install of the empty name is the same whatever the catalog holds, and its trace has none
  of the events of the catalog check.
\<close>

theorem empty_name_skips_catalog:
  "install_named e self [] silent w tr =
     (if \<not> module_exists e []
      then (Returned False, self, w,
            tr @ [ModuleExists [] False,
                  Log Warning (NotFoundInRemote [] (remote_url (modules_repo self))
                                 (branch (modules_repo self)))])
      else install_existing e self [] silent w (tr @ [ModuleExists [] True]))
   \<and> install (e\<lparr>get_avail_modules := a\<rparr>) self (Some []) silent w = install e self (Some []) silent w
   \<and> filter is_catalog (snd (snd (snd (install e self (Some []) silent w)))) = []"
proof (intro conjI)
  show named: "install_named e self [] silent w tr =
     (if \<not> module_exists e []
      then (Returned False, self, w,
            tr @ [ModuleExists [] False,
                  Log Warning (NotFoundInRemote [] (remote_url (modules_repo self))
                                 (branch (modules_repo self)))])
      else install_existing e self [] silent w (tr @ [ModuleExists [] True]))" for w tr
    by (simp add: install_named_def)
  have "install_named (e\<lparr>get_avail_modules := a\<rparr>) self [] silent w' tr' =
          install_named e self [] silent w' tr'" for w' tr'
    by (simp add: install_named_def existing_avail)
  then show "install (e\<lparr>get_avail_modules := a\<rparr>) self (Some []) silent w =
               install e self (Some []) silent w"
    by (auto simp: install_def Let_def)
  show "filter is_catalog (snd (snd (snd (install e self (Some []) silent w)))) = []"
    by (simp add: install_def Let_def named existing_catalog)
qed

theorem empty_name_skips_catalog_witness:
  "install_named ex_env ex_self [] True ex_world
     [HasValidDirectory True, CheckModulesStructure, CheckUpToDate] =
     (Returned False, ex_self, ex_world,
      [HasValidDirectory True, CheckModulesStructure, CheckUpToDate, ModuleExists [] False,
       Log Warning (NotFoundInRemote [] ''git/nf-core'' ''master'')])
   \<and> install (ex_env\<lparr>get_avail_modules := [[]]\<rparr>) ex_self (Some []) True ex_world =
       install ex_env ex_self (Some []) True ex_world
   \<and> install ex_env ex_self (Some []) True ex_world =
       (Returned False, ex_self, ex_world,
        [HasValidDirectory True, CheckModulesStructure, CheckUpToDate, ModuleExists [] False,
         Log Warning (NotFoundInRemote [] ''git/nf-core'' ''master'')])"
proof -
  let ?tr = "[HasValidDirectory True, CheckModulesStructure, CheckUpToDate]"
  note c = empty_name_skips_catalog [of ex_env ex_self True ex_world ?tr "[[]]"]
  have no: "\<not> module_exists ex_env []" by (simp add: ex_defs)
  from c no have named: "install_named ex_env ex_self [] True ex_world ?tr =
     (Returned False, ex_self, ex_world,
      ?tr @ [ModuleExists [] False,
             Log Warning (NotFoundInRemote [] (remote_url (modules_repo ex_self))
                            (branch (modules_repo ex_self)))])"
    by simp
  from c have same: "install (ex_env\<lparr>get_avail_modules := [[]]\<rparr>) ex_self (Some []) True ex_world =
       install ex_env ex_self (Some []) True ex_world"
    by blast
  have run: "install ex_env ex_self (Some []) True ex_world =
       (Returned False, ex_self, ex_world,
        [HasValidDirectory True, CheckModulesStructure, CheckUpToDate, ModuleExists [] False,
         Log Warning (NotFoundInRemote [] ''git/nf-core'' ''master'')])"
    by (simp add: install_defs ex_defs)
  from named same run show ?thesis by (simp add: ex_defs)
qed

end
